theory Spec2Isabelle
  imports Complex_Main "HOL-Library.Sublist"
begin

section \<open>Python values, exceptions and the runtime\<close>

text \<open>
  The pipeline passes untyped Python values around: the JSON body of the weather
  service, the observation dictionaries, the arguments of \<open>save_weather_data\<close>.
  A value is one of the JSON shapes; a dictionary is an association list with string
  keys, looked up from the front. Floats are their exact rational values (NaN and the
  infinities are outside the model).
\<close>

datatype pyval =
    PNone
  | PBool bool
  | PInt int
  | PFloat rat
  | PStr string
  | PList "pyval list"
  | PDict "(string \<times> pyval) list"

type_synonym pydict = "(string \<times> pyval) list"

text \<open>Every exception of the modelled code is a subclass of \<open>Exception\<close>.\<close>

datatype exn =
    KeyError string
  | TypeError
  | AttributeError
  | IndexError
  | ValueError
  | SQLAlchemyError

text \<open>What the code formats into a human-readable message.\<close>

datatype log_event =
    SkippedMsg pyval rat int
  | SavedMsg pyval
  | ErrorMsg pyval exn
  | ExnText exn

text \<open>
  Two library functions are parameters of the model: \<open>round1\<close> is Python's
  \<open>round(x, 1)\<close> on a float, \<open>render\<close> the f-string formatting of a message.
\<close>

record pylib =
  round1 :: "rat \<Rightarrow> rat"
  render :: "log_event \<Rightarrow> string"

definition then_exn :: "exn + 'a \<Rightarrow> ('a \<Rightarrow> exn + 'b) \<Rightarrow> exn + 'b" where
  "then_exn r f = (case r of Inl e \<Rightarrow> Inl e | Inr v \<Rightarrow> f v)"

text \<open>Truth value of an object in a condition.\<close>

fun truthy :: "pyval \<Rightarrow> bool" where
  "truthy PNone = False"
| "truthy (PBool b) = b"
| "truthy (PInt n) = (n \<noteq> 0)"
| "truthy (PFloat x) = (x \<noteq> 0)"
| "truthy (PStr s) = (s \<noteq> [])"
| "truthy (PList xs) = (xs \<noteq> [])"
| "truthy (PDict kvs) = (kvs \<noteq> [])"

text \<open>\<open>d[k]\<close> on a dictionary.\<close>

definition dict_getitem :: "pydict \<Rightarrow> string \<Rightarrow> exn + pyval" where
  "dict_getitem d k = (case map_of d k of None \<Rightarrow> Inl (KeyError k) | Some v \<Rightarrow> Inr v)"

text \<open>\<open>d.get(k, default)\<close> on a dictionary.\<close>

definition dict_get :: "pydict \<Rightarrow> string \<Rightarrow> pyval \<Rightarrow> pyval" where
  "dict_get d k dflt = (case map_of d k of None \<Rightarrow> dflt | Some v \<Rightarrow> v)"

text \<open>\<open>v[k]\<close> with a string key on any value: only a dictionary has string keys.\<close>

fun getitem :: "pyval \<Rightarrow> string \<Rightarrow> exn + pyval" where
  "getitem (PDict d) k = dict_getitem d k"
| "getitem v k = Inl TypeError"

text \<open>
  \<open>v[0]\<close> on any value. The keys of a JSON object are strings, so the integer key
  \<open>0\<close> is never found in one.
\<close>

fun getitem0 :: "pyval \<Rightarrow> exn + pyval" where
  "getitem0 (PList []) = Inl IndexError"
| "getitem0 (PList (x # xs)) = Inr x"
| "getitem0 (PStr []) = Inl IndexError"
| "getitem0 (PStr (c # cs)) = Inr (PStr [c])"
| "getitem0 (PDict d) = Inl (KeyError ''0'')"
| "getitem0 v = Inl TypeError"

text \<open>\<open>v.get(k, default)\<close> on any value: only a dictionary has the method.\<close>

fun getattr_get :: "pyval \<Rightarrow> string \<Rightarrow> pyval \<Rightarrow> exn + pyval" where
  "getattr_get (PDict d) k dflt = Inr (dict_get d k dflt)"
| "getattr_get v k dflt = Inl AttributeError"

text \<open>\<open>round(v, 1)\<close>: a float is rounded, an int (and a bool, which is an int) is kept.\<close>

fun py_round1 :: "pylib \<Rightarrow> pyval \<Rightarrow> exn + pyval" where
  "py_round1 rt (PFloat x) = Inr (PFloat (round1 rt x))"
| "py_round1 rt (PInt n) = Inr (PInt n)"
| "py_round1 rt (PBool b) = Inr (PInt (if b then 1 else 0))"
| "py_round1 rt v = Inl TypeError"

section \<open>Data Source Client: \<open>fetch_city_weather\<close>\<close>

text \<open>
  What the network does to one request: it times out, fails in transport, or answers
  with a status and a body; the body is \<open>None\<close> when \<open>response.json()\<close> raises.
  \<open>finished_at\<close> is the value of \<open>time.time()\<close> when the result is built.
\<close>

datatype http_outcome =
    RequestTimeout
  | RequestError
  | Response int "pyval option"

record task_env =
  reply :: http_outcome
  finished_at :: rat

text \<open>
  The dictionary literal of lines 26 to 35; its entries are evaluated in order and the
  first exception leaves the literal.
\<close>

definition build_observation :: "pylib \<Rightarrow> pyval \<Rightarrow> rat \<Rightarrow> string \<Rightarrow> exn + pydict" where
  "build_observation rt data clock city_name =
     then_exn (getitem data ''main'') (\<lambda>m1.
     then_exn (getitem m1 ''temp'') (\<lambda>t.
     then_exn (py_round1 rt t) (\<lambda>temp.
     then_exn (getitem data ''main'') (\<lambda>m2.
     then_exn (getitem m2 ''humidity'') (\<lambda>hum.
     then_exn (getitem data ''main'') (\<lambda>m3.
     then_exn (getitem m3 ''pressure'') (\<lambda>pres.
     then_exn (getitem data ''weather'') (\<lambda>w.
     then_exn (getitem0 w) (\<lambda>w0.
     then_exn (getitem w0 ''description'') (\<lambda>descr.
     then_exn (getitem data ''wind'') (\<lambda>wind.
     then_exn (getattr_get wind ''speed'' (PInt 0)) (\<lambda>speed.
     then_exn (getitem data ''clouds'') (\<lambda>cl.
     then_exn (getattr_get cl ''all'' (PInt 0)) (\<lambda>cl_all.
       Inr [(''city'', PStr city_name),
            (''temperature'', temp),
            (''humidity'', hum),
            (''pressure'', pres),
            (''description'', descr),
            (''wind_speed'', speed),
            (''clouds'', cl_all),
            (''timestamp'', PFloat clock)]))))))))))))))"

text \<open>
  \<open>fetch_city_weather\<close> returns the observation dictionary, or \<open>None\<close> on status 401,
  on any other status, on a timeout and on every exception.
\<close>

definition fetch_city_weather :: "pylib \<Rightarrow> task_env \<Rightarrow> string \<Rightarrow> pydict option" where
  "fetch_city_weather rt tenv city_name =
     (case reply tenv of
        RequestTimeout \<Rightarrow> None
      | RequestError \<Rightarrow> None
      | Response status body \<Rightarrow>
          if status = 200 then
            (case body of
               None \<Rightarrow> None
             | Some data \<Rightarrow>
                 (case build_observation rt data (finished_at tenv) city_name of
                    Inl e \<Rightarrow> None
                  | Inr d \<Rightarrow> Some d))
          else if status = 401 then None
          else None)"

section \<open>Fetch Orchestrator: \<open>fetch_all_cities_async\<close>\<close>

text \<open>
  \<open>asyncio.gather(*tasks, return_exceptions=True)\<close> gives one result per task, in the
  order of the tasks: the task's return value or the exception it raised. The loop of
  lines 67 to 72 keeps the results that are neither an exception nor falsy.
\<close>

fun successful_results :: "(exn + pydict option) list \<Rightarrow> pydict list" where
  "successful_results [] = []"
| "successful_results (Inl e # rs) = successful_results rs"
| "successful_results (Inr None # rs) = successful_results rs"
| "successful_results (Inr (Some d) # rs) =
     (if truthy (PDict d) then d # successful_results rs else successful_results rs)"

text \<open>
  One task per city; \<open>net i\<close> is what the network does to the task of the \<open>i\<close>-th
  city. \<open>fetch_city_weather\<close> catches every exception, so each task returns.
\<close>

definition gather_tasks :: "pylib \<Rightarrow> (nat \<Rightarrow> task_env) \<Rightarrow> string list \<Rightarrow> (exn + pydict option) list" where
  "gather_tasks rt net cities =
     map (\<lambda>(i, c). Inr (fetch_city_weather rt (net i) c)) (enumerate 0 cities)"

definition fetch_all_cities_async :: "pylib \<Rightarrow> (nat \<Rightarrow> task_env) \<Rightarrow> string list \<Rightarrow> pydict list" where
  "fetch_all_cities_async rt net cities = successful_results (gather_tasks rt net cities)"

definition parse_all_cities_sync :: "pylib \<Rightarrow> (nat \<Rightarrow> task_env) \<Rightarrow> string list \<Rightarrow> pydict list" where
  "parse_all_cities_sync rt net cities = fetch_all_cities_async rt net cities"

section \<open>Persistence Store: the table \<open>weather_data\<close>\<close>

text \<open>
  A \<open>datetime\<close> is an instant in microseconds: \<open>Aware u\<close> carries a time zone and
  denotes the UTC instant \<open>u\<close>; \<open>Naive w\<close> has no time zone and \<open>w\<close> is its wall-clock
  reading.
\<close>

datatype pydatetime = Naive int | Aware int

text \<open>
  A row of the table (class \<open>WeatherData\<close>). The attributes hold the Python values
  that were assigned; \<open>created_at\<close> is \<open>None\<close> for SQL NULL.
\<close>

record weather_row =
  row_id :: nat
  city :: pyval
  temperature :: pyval
  humidity :: pyval
  pressure :: pyval
  description :: pyval
  wind_speed :: pyval
  clouds :: pyval
  created_at :: "pydatetime option"

type_synonym db = "weather_row list"

text \<open>
  The setting of the environment variable \<open>MIN_AGE_MINUTES\<close>, as
  \<open>int(os.getenv('MIN_AGE_MINUTES', '30'))\<close> sees it.
\<close>

datatype env_setting = Unset | Parsed int | Unparseable

text \<open>
  What the outside world does during one call of \<open>save_weather_data\<close>:
  \<^item> \<open>session_ok\<close>: \<open>get_session()\<close> of line 170 returns (\<open>init_db\<close> does not raise);
  \<^item> \<open>gate_session_ok\<close>: \<open>get_session()\<close> of line 94 returns;
  \<^item> \<open>query_ok\<close>: the query of lines 96 to 99 does not raise;
  \<^item> \<open>utc_now\<close>: \<open>datetime.now(timezone.utc)\<close> of line 125;
  \<^item> \<open>commit_ok\<close>: \<open>session.add\<close> and \<open>session.commit\<close> do not raise;
  \<^item> \<open>assigned_id\<close>, \<open>server_now\<close>: the primary key and the \<open>now()\<close> that the
    database server gives to the inserted row.
  \<open>session.rollback()\<close> and \<open>session.close()\<close> are taken not to raise.
\<close>

record call_env =
  min_age_var :: env_setting
  session_ok :: bool
  gate_session_ok :: bool
  query_ok :: bool
  utc_now :: int
  commit_ok :: bool
  assigned_id :: nat
  server_now :: int

definition instant :: "pydatetime \<Rightarrow> int" where
  "instant t = (case t of Naive w \<Rightarrow> w | Aware u \<Rightarrow> u)"

text \<open>
  \<open>ORDER BY created_at DESC\<close>: PostgreSQL puts NULL first in a descending order, then
  the later instants. \<open>desc_before a b\<close>: the row \<open>a\<close> comes strictly before \<open>b\<close>.
\<close>

definition desc_before :: "weather_row \<Rightarrow> weather_row \<Rightarrow> bool" where
  "desc_before a b =
     (case created_at a of
        None \<Rightarrow> created_at b \<noteq> None
      | Some ta \<Rightarrow> (case created_at b of None \<Rightarrow> False | Some tb \<Rightarrow> instant tb < instant ta))"

text \<open>\<open>.first()\<close> of the ordered rows; among equal keys the earlier row of the table.\<close>

fun first_desc :: "weather_row list \<Rightarrow> weather_row option" where
  "first_desc [] = None"
| "first_desc (r # rs) =
     (case first_desc rs of
        None \<Rightarrow> Some r
      | Some s \<Rightarrow> if desc_before s r then Some s else Some r)"

text \<open>
  \<open>get_last_weather_record\<close>: \<open>get_session()\<close> is called before the \<open>try\<close>, so its
  exception leaves the function; an exception of the query is logged and \<open>None\<close> is
  returned.
\<close>

definition get_last_weather_record :: "call_env \<Rightarrow> db \<Rightarrow> pyval \<Rightarrow> exn + weather_row option" where
  "get_last_weather_record env store c =
     (if \<not> gate_session_ok env then Inl SQLAlchemyError
      else if \<not> query_ok env then Inr None
      else Inr (first_desc (filter (\<lambda>r. city r = c) store)))"

section \<open>IEEE doubles\<close>

text \<open>
  A Python float is an IEEE 754 double. The finite doubles are modelled by their exact
  rational values, and a float operation is the exact operation followed by
  \<open>to_double\<close>, rounding to the nearest double with ties to the even mantissa (53
  bits, quantum \<open>2 powi (e - 52)\<close> in the binade \<open>e\<close>, and never below the subnormal
  quantum \<open>2 powi - 1074\<close>). Overflow is outside the model: a difference of two
  datetimes is far below the greatest double.
\<close>

definition round_half_even :: "rat \<Rightarrow> int" where
  "round_half_even y =
     (let f = \<lfloor>y\<rfloor>; r = y - of_int f
      in if r < 1 / 2 then f else if 1 / 2 < r then f + 1 else if even f then f else f + 1)"

text \<open>The number of binary digits of a positive integer.\<close>

function bit_length :: "int \<Rightarrow> nat" where
  "bit_length n = (if n \<le> 0 then 0 else Suc (bit_length (n div 2)))"
  by pat_completeness auto
termination
  by (relation "measure nat") auto

text \<open>The binade of \<open>x \<noteq> 0\<close>: the \<open>e\<close> with \<open>2 powi e \<le> \<bar>x\<bar> < 2 powi (e + 1)\<close>.\<close>

definition binade :: "rat \<Rightarrow> int" where
  "binade x =
     (case quotient_of \<bar>x\<bar> of (p, q) \<Rightarrow>
        let k = int (bit_length p) - int (bit_length q)
        in if 2 powi k \<le> \<bar>x\<bar> then k else k - 1)"

definition to_double :: "rat \<Rightarrow> rat" where
  "to_double x =
     (if x = 0 then 0
      else let ulp = 2 powi (max (binade x) (- 1022) - 52)
           in of_int (round_half_even (x / ulp)) * ulp)"

section \<open>Freshness Gate: \<open>is_data_fresh\<close>\<close>

text \<open>
  The age of the last record in minutes, \<open>(now - last_time).total_seconds() / 60\<close>:
  \<open>total_seconds()\<close> is the float nearest to the microseconds divided by \<open>10 ** 6\<close>,
  and the division by 60 is a float division.
\<close>

definition age_minutes_of :: "int \<Rightarrow> pydatetime \<Rightarrow> rat" where
  "age_minutes_of now created =
     (let last_time = (case created of Naive w \<Rightarrow> w | Aware u \<Rightarrow> u);
          age_delta = now - last_time;
          total_seconds = to_double (of_int age_delta / 1000000);
          age_minutes = to_double (total_seconds / 60)
      in age_minutes)"

text \<open>The triple \<open>(is_fresh, last_record, age_minutes)\<close>.\<close>

definition is_data_fresh ::
  "call_env \<Rightarrow> db \<Rightarrow> pyval \<Rightarrow> int \<Rightarrow> exn + (bool \<times> weather_row option \<times> rat option)" where
  "is_data_fresh env store c min_age_minutes =
     (case get_last_weather_record env store c of
        Inl e \<Rightarrow> Inl e
      | Inr None \<Rightarrow> Inr (False, None, None)
      | Inr (Some last_record) \<Rightarrow>
          (case created_at last_record of
             None \<Rightarrow> Inr (False, None, None)
           | Some created \<Rightarrow>
               (let age_minutes = age_minutes_of (utc_now env) created;
                    is_fresh = (age_minutes < of_int min_age_minutes)
                in Inr (is_fresh, Some last_record, Some age_minutes))))"

section \<open>Gated insert: \<open>save_weather_data\<close>\<close>

text \<open>The three result dictionaries.\<close>

definition skipped_result :: "pylib \<Rightarrow> pyval \<Rightarrow> rat option \<Rightarrow> int \<Rightarrow> pydict" where
  "skipped_result rt c age_minutes min_age_minutes =
     [(''saved'', PBool False),
      (''skipped'', PBool True),
      (''reason'', PStr ''skipped_fresh''),
      (''age_minutes'', (case age_minutes of None \<Rightarrow> PNone | Some a \<Rightarrow> PFloat a)),
      (''message'', PStr (render rt (SkippedMsg c (case age_minutes of None \<Rightarrow> 0 | Some a \<Rightarrow> a)
                                        min_age_minutes)))]"

definition saved_result :: "pylib \<Rightarrow> pyval \<Rightarrow> pydict" where
  "saved_result rt c =
     [(''saved'', PBool True),
      (''skipped'', PBool False),
      (''reason'', PStr ''saved''),
      (''age_minutes'', PNone),
      (''message'', PStr (render rt (SavedMsg c)))]"

definition error_result :: "pylib \<Rightarrow> pyval \<Rightarrow> exn \<Rightarrow> pydict" where
  "error_result rt c e =
     [(''saved'', PBool False),
      (''skipped'', PBool False),
      (''reason'', PStr ''error''),
      (''age_minutes'', PNone),
      (''message'', PStr (render rt (ErrorMsg c e)))]"

text \<open>The row that lines 188 to 196 build and the server completes on insert.\<close>

definition new_row :: "call_env \<Rightarrow> pyval \<Rightarrow> pyval \<Rightarrow> pyval \<Rightarrow> pyval \<Rightarrow> pyval \<Rightarrow> pyval \<Rightarrow> pyval \<Rightarrow> weather_row" where
  "new_row env c rounded hum pres descr wind cl =
     \<lparr>row_id = assigned_id env, city = c, temperature = rounded, humidity = hum,
      pressure = pres, description = descr, wind_speed = wind, clouds = cl,
      created_at = Some (Aware (server_now env))\<rparr>"

text \<open>
  The write branch, lines 187 to 219: build the row, add, commit; on any exception roll
  back and return the error dictionary.
\<close>

definition write_branch ::
  "pylib \<Rightarrow> call_env \<Rightarrow> db \<Rightarrow> pyval \<Rightarrow> pyval \<Rightarrow> pyval \<Rightarrow> pyval \<Rightarrow> pyval \<Rightarrow> pyval \<Rightarrow> pyval \<Rightarrow> pydict \<times> db" where
  "write_branch rt env store c temp hum pres descr wind cl =
     (case py_round1 rt temp of
        Inl e \<Rightarrow> (error_result rt c e, store)
      | Inr rounded \<Rightarrow>
          if commit_ok env
          then (saved_result rt c, store @ [new_row env c rounded hum pres descr wind cl])
          else (error_result rt c SQLAlchemyError, store))"

text \<open>Lines 167 and 168; \<open>int\<close> raises \<open>ValueError\<close> on a setting that is no integer.\<close>

definition resolve_min_age :: "call_env \<Rightarrow> int option \<Rightarrow> exn + int" where
  "resolve_min_age env min_age_minutes =
     (case min_age_minutes of
        Some m \<Rightarrow> Inr m
      | None \<Rightarrow>
          (case min_age_var env of
             Unset \<Rightarrow> Inr 30
           | Parsed n \<Rightarrow> Inr n
           | Unparseable \<Rightarrow> Inl ValueError))"

text \<open>
  \<open>save_weather_data\<close> returns the result dictionary and the new content of the table,
  or raises: lines 168 and 170 are outside the \<open>try\<close>.
\<close>

definition save_weather_data ::
  "pylib \<Rightarrow> call_env \<Rightarrow> db \<Rightarrow> pyval \<Rightarrow> pyval \<Rightarrow> pyval \<Rightarrow> pyval \<Rightarrow> pyval \<Rightarrow> pyval \<Rightarrow> pyval
     \<Rightarrow> int option \<Rightarrow> bool \<Rightarrow> exn + (pydict \<times> db)" where
  "save_weather_data rt env store c temp hum pres descr wind cl min_age_minutes skip_if_fresh =
     (case resolve_min_age env min_age_minutes of
        Inl e \<Rightarrow> Inl e
      | Inr m \<Rightarrow>
          if \<not> session_ok env then Inl SQLAlchemyError
          else if skip_if_fresh then
            (case is_data_fresh env store c m of
               Inl e \<Rightarrow> Inr (error_result rt c e, store)
             | Inr (is_fresh, last_record, age_minutes) \<Rightarrow>
                 if is_fresh then Inr (skipped_result rt c age_minutes m, store)
                 else Inr (write_branch rt env store c temp hum pres descr wind cl))
          else Inr (write_branch rt env store c temp hum pres descr wind cl))"

section \<open>Pipeline Coordinator: \<open>save_results_to_db\<close>\<close>

text \<open>
  The body of the \<open>try\<close> of lines 52 to 68 for one observation: the counters after
  it and the table, or the exception that the handler of line 69 prints.
\<close>

definition save_one ::
  "pylib \<Rightarrow> call_env \<Rightarrow> db \<Rightarrow> pydict \<Rightarrow> nat \<Rightarrow> nat \<Rightarrow> exn + (nat \<times> nat \<times> db)" where
  "save_one rt env store weather_data saved_count skipped_count =
     then_exn (dict_getitem weather_data ''city'') (\<lambda>c.
     then_exn (dict_getitem weather_data ''temperature'') (\<lambda>temp.
     then_exn (dict_getitem weather_data ''humidity'') (\<lambda>hum.
     then_exn (dict_getitem weather_data ''pressure'') (\<lambda>pres.
     then_exn (dict_getitem weather_data ''description'') (\<lambda>descr.
     then_exn (save_weather_data rt env store c temp hum pres descr
                 (dict_get weather_data ''wind_speed'' PNone)
                 (dict_get weather_data ''clouds'' PNone) (Some 30) True) (\<lambda>(result, store').
     then_exn (dict_getitem result ''saved'') (\<lambda>saved.
       if truthy saved then Inr (saved_count + 1, skipped_count, store')
       else then_exn (dict_getitem result ''skipped'') (\<lambda>skipped.
         if truthy skipped then Inr (saved_count, skipped_count + 1, store')
         else Inr (saved_count, skipped_count, store')))))))))"

text \<open>
  The loop of lines 50 to 70. \<open>world i\<close> is what the outside world does while the
  \<open>i\<close>-th observation is processed. An exception of the body is printed and the loop
  goes on; it can only come from before the insert, so the table is as it was.
\<close>

fun save_loop ::
  "pylib \<Rightarrow> (nat \<Rightarrow> call_env) \<Rightarrow> nat \<Rightarrow> db \<Rightarrow> pydict list \<Rightarrow> nat \<Rightarrow> nat \<Rightarrow> nat \<times> nat \<times> db" where
  "save_loop rt world i store [] saved_count skipped_count = (saved_count, skipped_count, store)"
| "save_loop rt world i store (weather_data # rest) saved_count skipped_count =
     (if truthy (PDict weather_data) then
        (case save_one rt (world i) store weather_data saved_count skipped_count of
           Inl e \<Rightarrow> save_loop rt world (Suc i) store rest saved_count skipped_count
         | Inr (saved_count', skipped_count', store') \<Rightarrow>
             save_loop rt world (Suc i) store' rest saved_count' skipped_count')
      else save_loop rt world (Suc i) store rest saved_count skipped_count)"

text \<open>
  \<open>save_results_to_db\<close>: the value pulled from XCom is \<open>None\<close> or the list that the
  parse task returned. The function returns \<open>saved_count\<close> alone; \<open>skipped_count\<close> is
  printed in the last line of the log.
\<close>

definition save_results_to_db ::
  "pylib \<Rightarrow> (nat \<Rightarrow> call_env) \<Rightarrow> db \<Rightarrow> pydict list option \<Rightarrow> nat \<times> db" where
  "save_results_to_db rt world store xcom =
     (case xcom of
        None \<Rightarrow> (0, store)
      | Some weather_data_list \<Rightarrow>
          if weather_data_list = [] then (0, store)
          else (case save_loop rt world 0 store weather_data_list 0 0 of
                  (saved_count, skipped_count, store') \<Rightarrow> (saved_count, store')))"

text \<open>
  The skipped count that line 72 prints (no line is printed when there is nothing to
  save).
\<close>

definition printed_skipped ::
  "pylib \<Rightarrow> (nat \<Rightarrow> call_env) \<Rightarrow> db \<Rightarrow> pydict list option \<Rightarrow> nat option" where
  "printed_skipped rt world store xcom =
     (case xcom of
        None \<Rightarrow> None
      | Some weather_data_list \<Rightarrow>
          if weather_data_list = [] then None
          else (case save_loop rt world 0 store weather_data_list 0 0 of
                  (saved_count, skipped_count, store') \<Rightarrow> Some skipped_count))"

text \<open>
  One run of the DAG \<open>async_weather_parser_dag\<close>: the parse task over the cities, then
  the save task on its result.
\<close>

definition async_weather_parser_dag ::
  "pylib \<Rightarrow> (nat \<Rightarrow> task_env) \<Rightarrow> (nat \<Rightarrow> call_env) \<Rightarrow> db \<Rightarrow> string list \<Rightarrow> nat \<times> db" where
  "async_weather_parser_dag rt net world store cities =
     save_results_to_db rt world store (Some (parse_all_cities_sync rt net cities))"

section \<open>Celery task: \<open>save_weather_task\<close>\<close>

definition save_weather_task :: "pylib \<Rightarrow> call_env \<Rightarrow> db \<Rightarrow> pydict \<Rightarrow> pydict \<times> db" where
  "save_weather_task rt env store weather_data =
     (case
        then_exn (dict_getitem weather_data ''city'') (\<lambda>c.
        then_exn (dict_getitem weather_data ''temperature'') (\<lambda>temp.
        then_exn (dict_getitem weather_data ''humidity'') (\<lambda>hum.
        then_exn (dict_getitem weather_data ''pressure'') (\<lambda>pres.
        then_exn (dict_getitem weather_data ''description'') (\<lambda>descr.
        then_exn (save_weather_data rt env store c temp hum pres descr PNone PNone None True)
          (\<lambda>(success, store').
            if truthy (PDict success)
            then Inr ([(''status'', PStr ''success''), (''city'', c)], store')
            else Inr ([(''status'', PStr ''error''), (''city'', c)], store')))))))
      of
        Inl e \<Rightarrow> ([(''status'', PStr ''error''), (''message'', PStr (render rt (ExnText e)))], store)
      | Inr r \<Rightarrow> r)"

section \<open>Example inputs\<close>

text \<open>
  Concrete inputs on which the theorems below are instantiated. The example runtime
  rounds nothing and renders every message as the empty string.
\<close>

definition demo_lib :: pylib where
  "demo_lib = \<lparr>round1 = (\<lambda>x. x), render = (\<lambda>e. [])\<rparr>"

text \<open>A healthy call, ten minutes (600000000 microseconds) after the instant 0.\<close>

definition demo_env :: call_env where
  "demo_env = \<lparr>min_age_var = Unset, session_ok = True, gate_session_ok = True,
                query_ok = True, utc_now = 600000000, commit_ok = True, assigned_id = 7,
                server_now = 600000001\<rparr>"

definition demo_row :: weather_row where
  "demo_row = \<lparr>row_id = 1, city = PStr ''Moscow,ru'', temperature = PFloat 1,
                humidity = PInt 50, pressure = PInt 1000, description = PStr ''ok'',
                wind_speed = PNone, clouds = PNone, created_at = Some (Aware 0)\<rparr>"

text \<open>A row of the same city whose \<open>created_at\<close> is NULL.\<close>

definition null_row :: weather_row where
  "null_row = \<lparr>row_id = 2, city = PStr ''Moscow,ru'', temperature = PFloat 1,
                humidity = PNone, pressure = PNone, description = PNone,
                wind_speed = PNone, clouds = PNone, created_at = None\<rparr>"

text \<open>The row that a healthy call inserts for the example observation.\<close>

definition demo_new_row :: weather_row where
  "demo_new_row = \<lparr>row_id = 7, city = PStr ''Moscow,ru'', temperature = PFloat 2,
                    humidity = PInt 40, pressure = PInt 1010, description = PStr ''sun'',
                    wind_speed = PNone, clouds = PNone, created_at = Some (Aware 600000001)\<rparr>"

text \<open>The message a Celery worker receives for the example observation.\<close>

definition demo_message :: pydict where
  "demo_message = [(''city'', PStr ''Moscow,ru''), (''temperature'', PFloat 2),
                   (''humidity'', PInt 40), (''pressure'', PInt 1010),
                   (''description'', PStr ''sun'')]"

text \<open>
  A body of the weather service without \<open>wind.speed\<close> and \<open>clouds.all\<close>, and
  the same body reporting both as zero.
\<close>

definition payload_missing :: pyval where
  "payload_missing =
     PDict [(''main'', PDict [(''temp'', PFloat 2), (''humidity'', PInt 40), (''pressure'', PInt 1010)]),
            (''weather'', PList [PDict [(''description'', PStr ''sun'')]]),
            (''wind'', PDict []),
            (''clouds'', PDict [])]"

definition payload_zero :: pyval where
  "payload_zero =
     PDict [(''main'', PDict [(''temp'', PFloat 2), (''humidity'', PInt 40), (''pressure'', PInt 1010)]),
            (''weather'', PList [PDict [(''description'', PStr ''sun'')]]),
            (''wind'', PDict [(''speed'', PInt 0)]),
            (''clouds'', PDict [(''all'', PInt 0)])]"

definition answered :: "pyval \<Rightarrow> task_env" where
  "answered body = \<lparr>reply = Response 200 (Some body), finished_at = 0\<rparr>"

definition timed_out :: task_env where
  "timed_out = \<lparr>reply = RequestTimeout, finished_at = 0\<rparr>"

definition unauthorized :: task_env where
  "unauthorized = \<lparr>reply = Response 401 None, finished_at = 0\<rparr>"

text \<open>The observation that both bodies give for the city \<open>Moscow,ru\<close>.\<close>

definition demo_observation :: pydict where
  "demo_observation =
     [(''city'', PStr ''Moscow,ru''), (''temperature'', PFloat 2), (''humidity'', PInt 40),
      (''pressure'', PInt 1010), (''description'', PStr ''sun''), (''wind_speed'', PInt 0),
      (''clouds'', PInt 0), (''timestamp'', PFloat 0)]"

text \<open>A network that answers the first task and lets every other task time out.\<close>

definition first_only :: "nat \<Rightarrow> task_env" where
  "first_only i = (if i = 0 then answered payload_missing else timed_out)"

text \<open>The row that a healthy call inserts for \<open>demo_observation\<close>.\<close>

definition demo_observed_row :: weather_row where
  "demo_observed_row = \<lparr>row_id = 7, city = PStr ''Moscow,ru'', temperature = PFloat 2,
                    humidity = PInt 40, pressure = PInt 1010, description = PStr ''sun'',
                    wind_speed = PInt 0, clouds = PInt 0, created_at = Some (Aware 600000001)\<rparr>"

text \<open>A healthy call five minutes after \<open>demo_env\<close>.\<close>

definition later_env :: call_env where
  "later_env = \<lparr>min_age_var = Unset, session_ok = True, gate_session_ok = True,
                 query_ok = True, utc_now = 900000000, commit_ok = True, assigned_id = 8,
                 server_now = 900000001\<rparr>"

text \<open>A world in which the session of the first call cannot be opened.\<close>

definition first_call_fails :: "nat \<Rightarrow> call_env" where
  "first_call_fails i = (if i = 0 then demo_env\<lparr>session_ok := False\<rparr> else demo_env)"

text \<open>A row of the example city stamped 50 minutes before the instant 0.\<close>

definition old_row :: weather_row where
  "old_row = \<lparr>row_id = 3, city = PStr ''Moscow,ru'', temperature = PFloat 5,
               humidity = PInt 60, pressure = PInt 990, description = PStr ''rain'',
               wind_speed = PFloat 3, clouds = PInt 90, created_at = Some (Aware (- 3000000000))\<rparr>"










section \<open>Facts about rounding to a double\<close>

declare bit_length.simps [simp del]

lemma bit_length_bounds: "0 < n \<Longrightarrow> 2 ^ (bit_length n - 1) \<le> n \<and> n < 2 ^ bit_length n"
proof (induction n rule: bit_length.induct)
  case (1 n)
  show ?case
  proof (cases "n = 1")
    case True
    then show ?thesis by (simp add: bit_length.simps [of 1] bit_length.simps [of 0])
  next
    case False
    with "1.prems" have h: "0 < n div 2" by simp
    from "1.IH" h "1.prems" have ih: "2 ^ (bit_length (n div 2) - 1) \<le> n div 2"
      "n div 2 < 2 ^ bit_length (n div 2)" by simp_all
    from h have pos: "0 < bit_length (n div 2)" by (simp add: bit_length.simps [of "n div 2"])
    from "1.prems" have bl: "bit_length n = Suc (bit_length (n div 2))"
      by (simp add: bit_length.simps [of n])
    from ih(1) have "2 * 2 ^ (bit_length (n div 2) - 1) \<le> 2 * (n div 2)" by simp
    also have "\<dots> \<le> n" by simp
    finally have a: "2 ^ (bit_length n - 1) \<le> n" using bl pos
      by (cases "bit_length (n div 2)") simp_all
    from ih(2) have "n div 2 + 1 \<le> 2 ^ bit_length (n div 2)" by simp
    then have "2 * (n div 2 + 1) \<le> 2 * 2 ^ bit_length (n div 2)" by simp
    moreover have "n < 2 * (n div 2 + 1)" by simp
    ultimately have b: "n < 2 ^ bit_length n" using bl by simp
    from a b show ?thesis by simp
  qed
qed


lemma round_half_even_bounds: "\<lfloor>y\<rfloor> \<le> round_half_even y \<and> round_half_even y \<le> \<lceil>y\<rceil>"
proof -
  have "\<lfloor>y\<rfloor> + 1 \<le> \<lceil>y\<rceil>" if "1 / 2 \<le> y - of_int \<lfloor>y\<rfloor>"
  proof -
    from that have "of_int \<lfloor>y\<rfloor> < y" by simp
    then have "\<lfloor>y\<rfloor> < \<lceil>y\<rceil>" by (simp add: less_ceiling_iff)
    then show ?thesis by simp
  qed
  moreover have "\<lfloor>y\<rfloor> \<le> \<lceil>y\<rceil>" by (rule floor_le_ceiling)
  ultimately show ?thesis
    by (auto simp: round_half_even_def Let_def)
qed

lemma round_half_even_le:
  assumes "y \<le> of_int n"
  shows "round_half_even y \<le> n"
proof -
  from assms have "\<lceil>y\<rceil> \<le> n" by (simp add: ceiling_le)
  with round_half_even_bounds [of y] show ?thesis by simp
qed

lemma round_half_even_ge:
  assumes "of_int n \<le> y"
  shows "n \<le> round_half_even y"
proof -
  from assms have "n \<le> \<lfloor>y\<rfloor>" by (simp add: le_floor_iff)
  with round_half_even_bounds [of y] show ?thesis by simp
qed

lemma round_half_even_error: "\<bar>of_int (round_half_even y) - y\<bar> \<le> 1 / 2"
proof -
  have "of_int \<lfloor>y\<rfloor> \<le> y" "y < of_int \<lfloor>y\<rfloor> + 1" by linarith+
  then show ?thesis
    by (auto simp: round_half_even_def Let_def abs_le_iff)
qed

lemma quotient_of_abs:
  assumes "x \<noteq> 0" and "quotient_of \<bar>x\<bar> = (p, q)"
  shows "0 < p" and "0 < q" and "\<bar>x\<bar> = of_int p / of_int q"
proof -
  from assms(2) show q: "0 < q" by (rule quotient_of_denom_pos)
  from assms(2) show e: "\<bar>x\<bar> = of_int p / of_int q" by (rule quotient_of_div)
  from assms(1) have "0 < \<bar>x\<bar>" by simp
  with e q show "0 < p" by (simp add: zero_less_divide_iff)
qed

lemma binade_bounds:
  assumes "x \<noteq> 0"
  shows "2 powi binade x \<le> \<bar>x\<bar>" and "\<bar>x\<bar> < 2 powi (binade x + 1)"
proof -
  obtain p q where pq: "quotient_of \<bar>x\<bar> = (p, q)" by (cases "quotient_of \<bar>x\<bar>") auto
  note f = quotient_of_abs [OF assms pq]
  define a where "a = bit_length p"
  define b where "b = bit_length q"
  define P :: rat where "P = of_int p"
  define Q :: rat where "Q = of_int q"
  from bit_length_bounds [OF f(1)] have "of_int (2 ^ (a - 1)) \<le> P" "P < of_int (2 ^ a)"
    unfolding P_def a_def by (simp_all only: of_int_le_iff of_int_less_iff)
  then have p: "2 ^ (a - 1) \<le> P" "P < 2 ^ a" by simp_all
  from bit_length_bounds [OF f(2)] have "of_int (2 ^ (b - 1)) \<le> Q" "Q < of_int (2 ^ b)"
    unfolding Q_def b_def by (simp_all only: of_int_le_iff of_int_less_iff)
  then have q: "2 ^ (b - 1) \<le> Q" "Q < 2 ^ b" by simp_all
  from f(1) have a_pos: "0 < a" unfolding a_def by (simp add: bit_length.simps [of p])
  from f(2) have b_pos: "0 < b" unfolding b_def by (simp add: bit_length.simps [of q])
  from f(2) have Qpos: "0 < Q" by (simp add: Q_def)
  from f(1) have Ppos: "0 < P" by (simp add: P_def)
  have x: "\<bar>x\<bar> = P / Q" using f(3) by (simp add: P_def Q_def)
  define k where "k = int a - int b"
  have bin: "binade x = (if 2 powi k \<le> \<bar>x\<bar> then k else k - 1)"
    by (simp add: binade_def pq k_def a_def b_def Let_def)
  have k1: "(2::rat) powi (k + 1) = 2 ^ a / 2 ^ (b - 1)"
  proof -
    have "k + 1 = int a - int (b - 1)" using b_pos by (simp add: k_def)
    then show ?thesis by (simp add: power_int_diff)
  qed
  have km: "(2::rat) powi (k - 1) = 2 ^ (a - 1) / 2 ^ b"
  proof -
    have "k - 1 = int (a - 1) - int b" using a_pos by (simp add: k_def)
    then show ?thesis by (simp add: power_int_diff)
  qed
  have up: "\<bar>x\<bar> < 2 powi (k + 1)"
    unfolding x k1 using p(2) q(1) Ppos by (intro frac_less) simp_all
  have lo: "2 powi (k - 1) \<le> \<bar>x\<bar>"
    unfolding x km using p(1) q(2) Ppos Qpos by (intro frac_le) simp_all
  show "2 powi binade x \<le> \<bar>x\<bar>" using lo by (simp add: bin)
  show "\<bar>x\<bar> < 2 powi (binade x + 1)"
  proof (cases "2 powi k \<le> \<bar>x\<bar>")
    case True
    with up show ?thesis by (simp add: bin)
  next
    case False
    then show ?thesis by (simp add: bin)
  qed
qed

lemma binade_less:
  assumes "x \<noteq> 0" and "\<bar>x\<bar> < 2 ^ k"
  shows "binade x < int k"
proof -
  from binade_bounds(1) [OF assms(1)] assms(2) have "(2::rat) powi binade x < 2 powi int k"
    by simp
  then show ?thesis by (rule power_int_le_imp_less_exp [rotated]) simp_all
qed


lemma to_double_zero [simp]: "to_double 0 = 0"
  by (simp add: to_double_def)

lemma to_double_le_int:
  assumes "\<bar>x\<bar> < 2 ^ 53" and "x \<le> of_int n"
  shows "to_double x \<le> of_int n"
proof (cases "x = 0")
  case True
  with assms(2) show ?thesis by simp
next
  case False
  define e where "e = max (binade x) (- 1022)"
  from binade_less [OF False assms(1)] have "e \<le> 52" by (simp add: e_def)
  define d where "d = nat (52 - e)"
  have ulp: "(2::rat) powi (e - 52) = 1 / 2 ^ d"
  proof -
    from \<open>e \<le> 52\<close> have "e - 52 = - int d" by (simp add: d_def)
    then show ?thesis by (simp add: power_int_minus_divide)
  qed
  have td: "to_double x = of_int (round_half_even (x * 2 ^ d)) / 2 ^ d"
    using False by (simp add: to_double_def e_def [symmetric] ulp Let_def)
  from assms(2) have "x * 2 ^ d \<le> of_int n * 2 ^ d" by simp
  then have "x * 2 ^ d \<le> of_int (n * 2 ^ d)" by simp
  from round_half_even_le [OF this] have "(of_int (round_half_even (x * 2 ^ d)) :: rat) \<le> of_int (n * 2 ^ d)"
    by (simp only: of_int_le_iff)
  then have "(of_int (round_half_even (x * 2 ^ d)) :: rat) / 2 ^ d \<le> of_int n"
    by (simp add: pos_divide_le_eq)
  then show ?thesis by (simp only: td)
qed

lemma to_double_ge_int:
  assumes "\<bar>x\<bar> < 2 ^ 53" and "of_int n \<le> x"
  shows "of_int n \<le> to_double x"
proof (cases "x = 0")
  case True
  with assms(2) show ?thesis by simp
next
  case False
  define e where "e = max (binade x) (- 1022)"
  from binade_less [OF False assms(1)] have "e \<le> 52" by (simp add: e_def)
  define d where "d = nat (52 - e)"
  have ulp: "(2::rat) powi (e - 52) = 1 / 2 ^ d"
  proof -
    from \<open>e \<le> 52\<close> have "e - 52 = - int d" by (simp add: d_def)
    then show ?thesis by (simp add: power_int_minus_divide)
  qed
  have td: "to_double x = of_int (round_half_even (x * 2 ^ d)) / 2 ^ d"
    using False by (simp add: to_double_def e_def [symmetric] ulp Let_def)
  from assms(2) have "of_int n * 2 ^ d \<le> x * 2 ^ d" by simp
  then have "of_int (n * 2 ^ d) \<le> x * 2 ^ d" by simp
  from round_half_even_ge [OF this] have "(of_int (n * 2 ^ d) :: rat) \<le> of_int (round_half_even (x * 2 ^ d))"
    by (simp only: of_int_le_iff)
  then have "(of_int n :: rat) \<le> of_int (round_half_even (x * 2 ^ d)) / 2 ^ d"
    by (simp add: pos_le_divide_eq)
  then show ?thesis by (simp only: td)
qed

lemma to_double_of_int:
  assumes "\<bar>n\<bar> < 2 ^ 53"
  shows "to_double (of_int n) = of_int n"
proof -
  from assms have "(of_int \<bar>n\<bar> :: rat) < of_int (2 ^ 53)" by (simp only: of_int_less_iff)
  then have b: "\<bar>of_int n :: rat\<bar> < 2 ^ 53" by simp
  from to_double_le_int [OF b, of n] to_double_ge_int [OF b, of n] show ?thesis by simp
qed

lemma to_double_error:
  assumes "\<bar>x\<bar> < 2 ^ k"
  shows "\<bar>to_double x - x\<bar> \<le> 2 ^ k / 2 ^ 54"
proof (cases "x = 0")
  case True
  then show ?thesis by simp
next
  case False
  define e where "e = max (binade x) (- 1022)"
  from binade_less [OF False assms] have le: "e \<le> int k - 1" by (simp add: e_def)
  define ulp :: rat where "ulp = 2 powi (e - 52)"
  have pos: "0 < ulp" by (simp add: ulp_def)
  have "ulp \<le> 2 powi (int k - 1 - 52)"
    unfolding ulp_def using le by (intro power_int_increasing) simp_all
  also have "\<dots> = 2 ^ k / 2 ^ 53"
  proof -
    have "(2::rat) powi (int k - int 53) = 2 powi int k / 2 powi int 53"
      by (rule power_int_diff) simp
    also have "\<dots> = 2 ^ k / 2 ^ 53" by (simp only: power_int_of_nat)
    finally have "(2::rat) powi (int k - int 53) = 2 ^ k / 2 ^ 53" .
    moreover have "int k - 1 - 52 = int k - int 53" by simp
    ultimately show ?thesis by (simp only:)
  qed
  finally have ub: "ulp \<le> 2 ^ k / 2 ^ 53" .
  have td: "to_double x = of_int (round_half_even (x / ulp)) * ulp"
    using False by (simp add: to_double_def e_def [symmetric] ulp_def Let_def)
  have "to_double x - x = (of_int (round_half_even (x / ulp)) - x / ulp) * ulp"
    using pos by (simp add: td algebra_simps)
  then have "\<bar>to_double x - x\<bar> = \<bar>of_int (round_half_even (x / ulp)) - x / ulp\<bar> * ulp"
    using pos by (simp add: abs_mult)
  also have "\<dots> \<le> 1 / 2 * ulp"
    using round_half_even_error [of "x / ulp"] pos by (intro mult_right_mono) simp_all
  also have "\<dots> \<le> 1 / 2 * (2 ^ k / 2 ^ 53)"
    using ub by simp
  also have "\<dots> = 2 ^ k / 2 ^ 54" by simp
  finally show ?thesis .
qed

lemma binade_less_powi:
  assumes "x \<noteq> 0" and "\<bar>x\<bar> < 2 powi k"
  shows "binade x < k"
proof (rule ccontr)
  assume "\<not> binade x < k"
  then have "k \<le> binade x" by simp
  then have "(2::rat) powi k \<le> 2 powi binade x" by (intro power_int_increasing) simp_all
  with binade_bounds(1) [OF assms(1)] assms(2) show False by linarith
qed

lemma binade_ge_powi:
  assumes "2 powi k \<le> \<bar>x\<bar>"
  shows "k \<le> binade x"
proof (rule ccontr)
  have "(0::rat) < 2 powi k" by simp
  with assms have "0 < \<bar>x\<bar>" by linarith
  then have nz: "x \<noteq> 0" by simp
  assume "\<not> k \<le> binade x"
  then have "binade x + 1 \<le> k" by simp
  then have "(2::rat) powi (binade x + 1) \<le> 2 powi k" by (intro power_int_increasing) simp_all
  with binade_bounds(2) [OF nz] assms show False by linarith
qed

lemma to_double_normal:
  assumes "x \<noteq> 0" and "- 1022 \<le> binade x"
  shows "to_double x = of_int (round_half_even (x / 2 powi (binade x - 52))) * 2 powi (binade x - 52)"
proof -
  from assms(2) have "max (binade x) (- 1022) = binade x" by simp
  with assms(1) show ?thesis by (simp add: to_double_def Let_def)
qed


lemma to_double_le_neg_pow:
  assumes "x \<le> - (2 ^ k)"
  shows "to_double x \<le> - (2 ^ k)"
proof -
  have "(0::rat) < 2 ^ k" by simp
  with assms have neg: "x < 0" by linarith
  then have nz: "x \<noteq> 0" and ax: "\<bar>x\<bar> = - x" by simp_all
  define e where "e = binade x"
  define u :: rat where "u = 2 powi (e - 52)"
  have upos: "0 < u" by (simp add: u_def)
  from assms ax have "2 powi int k \<le> \<bar>x\<bar>" by simp
  from binade_ge_powi [OF this] have ke: "int k \<le> e" by (simp add: e_def)
  then have "- 1022 \<le> binade x" by (simp add: e_def)
  from to_double_normal [OF nz this] have td: "to_double x = of_int (round_half_even (x / u)) * u"
    by (simp add: e_def u_def)
  have pe: "(2::rat) powi e = 4503599627370496 * u"
  proof -
    have "(2::rat) powi (e - 52) = 2 powi e / 2 powi 52" by (rule power_int_diff) simp
    then show ?thesis by (simp add: u_def)
  qed
  have lo: "2 powi e \<le> \<bar>x\<bar>" using binade_bounds(1) [OF nz] by (simp add: e_def)
  from lo ax pe have "x \<le> - 4503599627370496 * u" by linarith
  with upos have "x / u \<le> of_int (- 4503599627370496)" by (simp add: pos_divide_le_eq)
  from round_half_even_le [OF this] have "(of_int (round_half_even (x / u)) :: rat) \<le> of_int (- 4503599627370496)"
    by (simp only: of_int_le_iff)
  with upos have "of_int (round_half_even (x / u)) * u \<le> of_int (- 4503599627370496) * u"
    by (intro mult_right_mono) simp_all
  then have "to_double x \<le> - (2 powi e)" by (simp add: td pe)
  moreover from ke have "(2::rat) powi int k \<le> 2 powi e" by (intro power_int_increasing) simp_all
  ultimately show ?thesis by simp
qed

lemma to_double_error_powi:
  assumes "\<bar>x\<bar> < 2 powi k" and "- 1021 \<le> k"
  shows "\<bar>to_double x - x\<bar> \<le> 2 powi (k - 54)"
proof (cases "x = 0")
  case True
  then show ?thesis by simp
next
  case False
  define e where "e = max (binade x) (- 1022)"
  from binade_less_powi [OF False assms(1)] assms(2) have le: "e \<le> k - 1" by (simp add: e_def)
  define ulp :: rat where "ulp = 2 powi (e - 52)"
  have pos: "0 < ulp" by (simp add: ulp_def)
  have "ulp \<le> 2 powi (k - 1 - 52)"
    unfolding ulp_def using le by (intro power_int_increasing) simp_all
  also have "\<dots> = 2 * 2 powi (k - 54)"
  proof -
    have "(2::rat) powi ((k - 54) + 1) = 2 powi (k - 54) * 2" by (rule power_int_add_1) simp
    moreover have "k - 1 - 52 = (k - 54) + 1" by simp
    ultimately show ?thesis by (simp only: mult.commute)
  qed
  finally have ub: "ulp \<le> 2 * 2 powi (k - 54)" .
  have td: "to_double x = of_int (round_half_even (x / ulp)) * ulp"
    using False by (simp add: to_double_def e_def [symmetric] ulp_def Let_def)
  have "to_double x - x = (of_int (round_half_even (x / ulp)) - x / ulp) * ulp"
    using pos by (simp add: td algebra_simps)
  then have "\<bar>to_double x - x\<bar> = \<bar>of_int (round_half_even (x / ulp)) - x / ulp\<bar> * ulp"
    using pos by (simp add: abs_mult)
  also have "\<dots> \<le> 1 / 2 * ulp"
    using round_half_even_error [of "x / ulp"] pos by (intro mult_right_mono) simp_all
  also have "\<dots> \<le> 2 powi (k - 54)"
    using ub by simp
  finally show ?thesis .
qed


lemma strictly_below_case:
  fixes x1 G :: rat
  assumes g: "G = of_int g" and lo: "G - 1 < x1" and hi: "x1 \<le> G - 1 / 1000000"
    and small: "\<bar>x1\<bar> < 2 ^ 34" and tiny: "1 / 1000000 \<le> \<bar>x1\<bar>"
  shows "to_double (to_double x1 / 60) < G / 60"
proof -
  define e where "e = binade x1"
  define u :: rat where "u = 2 powi (e - 52)"
  define s where "s = to_double x1"
  define x2 where "x2 = s / 60"
  have upos: "0 < u" by (simp add: u_def)
  from tiny have nz: "x1 \<noteq> 0" by auto
  have "(2::rat) powi (- 20) \<le> 1 / 1000000" by (simp add: power_int_minus_divide)
  with tiny have "2 powi (- 20) \<le> \<bar>x1\<bar>" by linarith
  from binade_ge_powi [OF this] have e_lo: "- 20 \<le> e" by (simp add: e_def)
  from binade_less [OF nz small] have e_hi: "e \<le> 33" by (simp add: e_def)
  from e_lo have "- 1022 \<le> binade x1" by (simp add: e_def)
  from to_double_normal [OF nz this] have td: "s = of_int (round_half_even (x1 / u)) * u"
    by (simp add: s_def e_def u_def)
  define d where "d = nat (52 - e)"
  from e_hi have d19: "19 \<le> d" by (simp add: d_def)
  have ud: "u = 1 / 2 ^ d"
  proof -
    from e_hi have "e - 52 = - int d" by (simp add: d_def)
    then show ?thesis by (simp add: u_def power_int_minus_divide)
  qed
  have "(2::rat) ^ 19 \<le> 2 ^ d" using d19 by (intro power_increasing) simp_all
  then have d_big: "(524288::rat) \<le> 2 ^ d" by simp
  define y where "y = x1 * 2 ^ d"
  define N where "N = round_half_even y"
  have s_N: "s = of_int N / 2 ^ d" by (simp add: td ud N_def y_def)
  have G_N: "G = of_int (g * 2 ^ d) / 2 ^ d" by (simp add: g)
  from hi have "y \<le> (G - 1 / 1000000) * 2 ^ d" by (simp add: y_def)
  then have "y \<le> of_int (g * 2 ^ d) - 2 ^ d / 1000000" by (simp add: g algebra_simps)
  with d_big have "y + 1 / 2 < of_int (g * 2 ^ d)" by linarith
  moreover from round_half_even_error [of y] have "of_int N \<le> y + 1 / 2"
    unfolding N_def by linarith
  ultimately have "(of_int N :: rat) < of_int (g * 2 ^ d)" by linarith
  then have "N < g * 2 ^ d" by (simp only: of_int_less_iff)
  then have "N \<le> g * 2 ^ d - 1" by simp
  then have "(of_int N :: rat) \<le> of_int (g * 2 ^ d - 1)" by (simp only: of_int_le_iff)
  then have "(of_int N :: rat) / 2 ^ d \<le> of_int (g * 2 ^ d - 1) / 2 ^ d"
    by (intro divide_right_mono) simp_all
  also have "\<dots> = G - u" by (simp add: g ud diff_divide_distrib)
  finally have s_le: "s \<le> G - u" by (simp add: s_N)
  have sx: "s = 60 * x2" by (simp add: x2_def)
  from s_le sx have x2_le: "x2 \<le> G / 60 - u / 60" by linarith
  have p1: "(2::rat) powi (e + 1) = 9007199254740992 * u"
  proof -
    have "(2::rat) powi (e - 52 + 53) = 2 powi (e - 52) * 2 powi 53"
      by (rule power_int_add) simp
    moreover have "e - 52 + 53 = e + 1" by simp
    ultimately show ?thesis by (simp add: u_def)
  qed
  have p2: "(2::rat) powi (e - 4) = 281474976710656 * u"
  proof -
    have "(2::rat) powi (e - 52 + 48) = 2 powi (e - 52) * 2 powi 48"
      by (rule power_int_add) simp
    moreover have "e - 52 + 48 = e - 4" by simp
    ultimately show ?thesis by (simp add: u_def)
  qed
  have p3: "(2::rat) powi (e - 4 - 54) = u / 64"
  proof -
    have "(2::rat) powi (e - 52 - 6) = 2 powi (e - 52) / 2 powi 6"
      by (rule power_int_diff) simp
    moreover have "e - 52 - 6 = e - 4 - 54" by simp
    ultimately show ?thesis by (simp add: u_def)
  qed
  from binade_bounds(2) [OF nz] have x1_lt: "\<bar>x1\<bar> < 9007199254740992 * u"
    by (simp add: e_def [symmetric] p1)
  have ne: "\<bar>of_int N - y\<bar> \<le> 1 / 2" unfolding N_def by (rule round_half_even_error)
  have "s - x1 = (of_int N - y) * u" by (simp add: s_N y_def ud field_simps)
  then have "\<bar>s - x1\<bar> = \<bar>of_int N - y\<bar> * u" using upos by (simp add: abs_mult)
  also have "\<dots> \<le> 1 / 2 * u" using ne upos by (intro mult_right_mono) simp_all
  finally have s_err: "\<bar>s - x1\<bar> \<le> u / 2" by simp
  from s_err x1_lt sx upos have "\<bar>x2\<bar> < 281474976710656 * u" by linarith
  then have "\<bar>x2\<bar> < 2 powi (e - 4)" by (simp only: p2)
  moreover from e_lo have "- 1021 \<le> e - 4" by simp
  ultimately have "\<bar>to_double x2 - x2\<bar> \<le> 2 powi (e - 4 - 54)" by (rule to_double_error_powi)
  then have "\<bar>to_double x2 - x2\<bar> \<le> u / 64" by (simp only: p3)
  with x2_le upos have "to_double x2 < G / 60" by linarith
  then show ?thesis by (simp add: x2_def s_def)
qed

lemma age_skip:
  assumes "\<bar>m\<bar> \<le> (286331153::int)" and "(of_int \<mu> / 60000000 :: rat) < of_int m"
  shows "to_double (to_double (of_int \<mu> / 1000000) / 60) < of_int m"
proof -
  define x1 :: rat where "x1 = of_int \<mu> / 1000000"
  define s where "s = to_double x1"
  define x2 where "x2 = s / 60"
  define M :: rat where "M = of_int m"
  define G :: rat where "G = of_int (60 * m)"
  have GM: "G = 60 * M" by (simp add: G_def M_def)
  from assms(1) have "(of_int \<bar>m\<bar> :: rat) \<le> of_int 286331153" by (simp only: of_int_le_iff)
  then have Mb: "\<bar>M\<bar> \<le> 286331153" by (simp add: M_def)
  from assms(2) have "(of_int \<mu> :: rat) < of_int (60000000 * m)" by simp
  then have lt: "\<mu> < 60000000 * m" by (simp only: of_int_less_iff)
  then have "\<mu> \<le> 60000000 * m - 1" by simp
  then have "(of_int \<mu> :: rat) \<le> of_int (60000000 * m - 1)" by (simp only: of_int_le_iff)
  then have x1_le: "x1 \<le> G - 1 / 1000000" by (simp add: x1_def G_def)
  have sx: "s = 60 * x2" by (simp add: x2_def)
  have "to_double x2 < M"
  proof (cases "G - 1 < x1")
    case True
    with x1_le GM Mb have "\<bar>x1\<bar> < 17179869184" by linarith
    then have small: "\<bar>x1\<bar> < 2 ^ 34" by simp
    have tiny: "1 / 1000000 \<le> \<bar>x1\<bar>"
    proof (cases "\<mu> = 0")
      case True
      with lt have "0 < m" by simp
      then have "1 \<le> M" by (simp add: M_def)
      with True \<open>G - 1 < x1\<close> GM show ?thesis by (simp add: x1_def)
    next
      case False
      then have "1 \<le> \<bar>\<mu>\<bar>" by simp
      then have "(of_int 1 :: rat) \<le> of_int \<bar>\<mu>\<bar>" by (simp only: of_int_le_iff)
      then show ?thesis by (simp add: x1_def)
    qed
    from strictly_below_case [OF G_def True x1_le small tiny] GM show ?thesis
      by (simp add: x2_def s_def)
  next
    case False
    then have far: "x1 \<le> G - 1" by simp
    show ?thesis
    proof (cases "x1 \<le> - (2 ^ 52)")
      case True
      from to_double_le_neg_pow [OF this] have "s \<le> - 4503599627370496" by (simp add: s_def)
      with sx have "x2 \<le> - (2 ^ 46)" by simp
      from to_double_le_neg_pow [OF this] have "to_double x2 \<le> - 70368744177664" by simp
      with Mb show ?thesis by linarith
    next
      case False
      then have lo: "- 4503599627370496 < x1" by simp
      with far GM Mb have "\<bar>x1\<bar> < 9007199254740992" by linarith
      then have lt1: "\<bar>x1\<bar> < 2 ^ 53" by simp
      from far have "x1 \<le> of_int (60 * m - 1)" by (simp add: G_def)
      from to_double_le_int [OF lt1 this] have s_le: "s \<le> G - 1" by (simp add: s_def G_def)
      from lo have "of_int (- 4503599627370496) \<le> x1" by simp
      from to_double_ge_int [OF lt1 this] have s_ge: "- 4503599627370496 \<le> s" by (simp add: s_def)
      from s_le sx GM have x2_le: "x2 \<le> M - 1 / 60" by linarith
      from s_ge sx x2_le Mb have "\<bar>x2\<bar> < 9007199254740992" by linarith
      then have lt2: "\<bar>x2\<bar> < 2 ^ 53" by simp
      show ?thesis
      proof (cases "x2 \<le> M - 1")
        case True
        then have "x2 \<le> of_int (m - 1)" by (simp add: M_def)
        from to_double_le_int [OF lt2 this] show ?thesis by (simp add: M_def)
      next
        case False
        with x2_le Mb have "\<bar>x2\<bar> < 536870912" by linarith
        then have "\<bar>x2\<bar> < 2 ^ 29" by simp
        from to_double_error [OF this] have "\<bar>to_double x2 - x2\<bar> \<le> 1 / 33554432" by simp
        with x2_le show ?thesis by linarith
      qed
    qed
  qed
  then show ?thesis by (simp add: x2_def s_def x1_def M_def)
qed








lemma measured_age_whole_minutes:
  assumes "\<bar>j\<bar> \<le> (10::int) ^ 10"
  shows "to_double (to_double (of_int (60000000 * j) / 1000000) / 60) = of_int j"
proof -
  have a: "(of_int (60000000 * j) / 1000000 :: rat) = of_int (60 * j)" by simp
  from assms have "\<bar>60 * j\<bar> < 2 ^ 53" by simp
  from to_double_of_int [OF this] have b: "to_double (of_int (60 * j)) = of_int (60 * j)" .
  have c: "(of_int (60 * j) / 60 :: rat) = of_int j" by simp
  from assms have "\<bar>j\<bar> < 2 ^ 53" by simp
  from to_double_of_int [OF this] have d: "to_double (of_int j) = of_int j" .
  show ?thesis by (simp only: a b c d)
qed

lemma age_minutes_of_instant:
  "age_minutes_of now t = to_double (to_double (of_int (now - instant t) / 1000000) / 60)"
  by (simp add: age_minutes_of_def instant_def Let_def)

section \<open>Auxiliary facts\<close>

lemma then_exn_Inr_iff: "then_exn r f = Inr y \<longleftrightarrow> (\<exists>v. r = Inr v \<and> f v = Inr y)"
  by (cases r) (simp_all add: then_exn_def)

lemma then_exn_simps [simp]:
  "then_exn (Inl e) f = Inl e" "then_exn (Inr v) f = f v"
  by (simp_all add: then_exn_def)

lemma saved_result_items:
  "dict_getitem (saved_result rt c) ''saved'' = Inr (PBool True)"
  "dict_getitem (saved_result rt c) ''skipped'' = Inr (PBool False)"
  "dict_getitem (saved_result rt c) ''reason'' = Inr (PStr ''saved'')"
  by (simp_all add: saved_result_def dict_getitem_def)

lemma skipped_result_items:
  "dict_getitem (skipped_result rt c a m) ''saved'' = Inr (PBool False)"
  "dict_getitem (skipped_result rt c a m) ''skipped'' = Inr (PBool True)"
  "dict_getitem (skipped_result rt c a m) ''reason'' = Inr (PStr ''skipped_fresh'')"
  "dict_getitem (skipped_result rt c (Some x) m) ''age_minutes'' = Inr (PFloat x)"
  by (simp_all add: skipped_result_def dict_getitem_def)

lemma error_result_items:
  "dict_getitem (error_result rt c e) ''saved'' = Inr (PBool False)"
  "dict_getitem (error_result rt c e) ''skipped'' = Inr (PBool False)"
  "dict_getitem (error_result rt c e) ''reason'' = Inr (PStr ''error'')"
  by (simp_all add: error_result_def dict_getitem_def)

lemma result_nonempty:
  "saved_result rt c \<noteq> []" "skipped_result rt c a m \<noteq> []" "error_result rt c e \<noteq> []"
  by (simp_all add: saved_result_def skipped_result_def error_result_def)

lemma write_branch_cases:
  "write_branch rt env store c temp hum pres descr wind cl = (res, store') \<Longrightarrow>
     (\<exists>rounded. py_round1 rt temp = Inr rounded \<and> commit_ok env \<and> res = saved_result rt c
         \<and> store' = store @ [new_row env c rounded hum pres descr wind cl])
   \<or> (store' = store \<and> (\<exists>e. res = error_result rt c e))"
  by (auto simp: write_branch_def split: sum.splits if_splits)

lemma save_weather_data_cases:
  "save_weather_data rt env store c temp hum pres descr wind cl mo skip = Inr (res, store') \<Longrightarrow>
     (\<exists>rounded. py_round1 rt temp = Inr rounded \<and> commit_ok env \<and> res = saved_result rt c
         \<and> store' = store @ [new_row env c rounded hum pres descr wind cl])
   \<or> (store' = store \<and> (\<exists>e. res = error_result rt c e))
   \<or> (store' = store \<and> skip \<and> (\<exists>a m. res = skipped_result rt c a m))"
  unfolding save_weather_data_def
  by (auto split: sum.splits if_splits prod.splits dest: write_branch_cases)

lemma save_one_cases:
  assumes "save_one rt env store wd s k = Inr (s', k', store')"
  shows "(s' = s + 1 \<and> k' = k \<and>
            (\<exists>row. store' = store @ [row] \<and> dict_getitem wd ''city'' = Inr (city row)
               \<and> created_at row = Some (Aware (server_now env))))
       \<or> (s' = s \<and> k' = k + 1 \<and> store' = store)
       \<or> (s' = s \<and> k' = k \<and> store' = store)"
proof -
  from assms obtain c temp hum pres descr res st where
    c: "dict_getitem wd ''city'' = Inr c" and
    sw: "save_weather_data rt env store c temp hum pres descr
           (dict_get wd ''wind_speed'' PNone) (dict_get wd ''clouds'' PNone) (Some 30) True = Inr (res, st)" and
    rest: "then_exn (dict_getitem res ''saved'') (\<lambda>saved.
       if truthy saved then Inr (s + 1, k, st)
       else then_exn (dict_getitem res ''skipped'') (\<lambda>skipped.
         if truthy skipped then Inr (s, k + 1, st)
         else Inr (s, k, st))) = Inr (s', k', store')"
    unfolding save_one_def by (auto simp: then_exn_Inr_iff)
  from save_weather_data_cases [OF sw] show ?thesis
  proof (elim disjE exE conjE)
    fix rounded assume "res = saved_result rt c" "st = store @ [new_row env c rounded hum pres descr (dict_get wd ''wind_speed'' PNone) (dict_get wd ''clouds'' PNone)]"
    with rest c show ?thesis by (auto simp: saved_result_items new_row_def)
  next
    fix e assume "st = store" "res = error_result rt c e"
    with rest show ?thesis by (auto simp: error_result_items)
  next
    fix a m assume "st = store" "res = skipped_result rt c a m"
    with rest show ?thesis by (auto simp: skipped_result_items)
  qed
qed

lemma save_loop_counts:
  "save_loop rt world i store wds s k = (s', k', store') \<Longrightarrow>
     s \<le> s' \<and> k \<le> k' \<and> (s' - s) + (k' - k) \<le> length wds \<and> length store' = length store + (s' - s)"
proof (induction wds arbitrary: i store s k)
  case Nil
  then show ?case by simp
next
  case (Cons wd wds)
  show ?case
  proof (cases "truthy (PDict wd)")
    case False
    with Cons.prems have "save_loop rt world (Suc i) store wds s k = (s', k', store')" by simp
    from Cons.IH [OF this] show ?thesis by auto
  next
    case True
    show ?thesis
    proof (cases "save_one rt (world i) store wd s k")
      case (Inl e)
      with True Cons.prems have "save_loop rt world (Suc i) store wds s k = (s', k', store')" by simp
      from Cons.IH [OF this] show ?thesis by auto
    next
      case (Inr t)
      obtain s1 k1 st1 where t: "t = (s1, k1, st1)" by (cases t) auto
      with Inr True Cons.prems have "save_loop rt world (Suc i) st1 wds s1 k1 = (s', k', store')" by simp
      from Cons.IH [OF this] save_one_cases [OF Inr [unfolded t]] show ?thesis by auto
    qed
  qed
qed

lemma build_observation_Inr:
  assumes "build_observation rt data clock cname = Inr d"
  shows "\<exists>temp hum pres descr wind cl.
           getitem data ''wind'' = Inr (PDict wind) \<and> getitem data ''clouds'' = Inr (PDict cl) \<and>
           d = [(''city'', PStr cname), (''temperature'', temp), (''humidity'', hum),
                (''pressure'', pres), (''description'', descr),
                (''wind_speed'', dict_get wind ''speed'' (PInt 0)),
                (''clouds'', dict_get cl ''all'' (PInt 0)),
                (''timestamp'', PFloat clock)]"
proof -
  from assms obtain temp hum pres descr wind speed cl cl_all where
    w: "getitem data ''wind'' = Inr wind" "getattr_get wind ''speed'' (PInt 0) = Inr speed" and
    c: "getitem data ''clouds'' = Inr cl" "getattr_get cl ''all'' (PInt 0) = Inr cl_all" and
    d: "d = [(''city'', PStr cname), (''temperature'', temp), (''humidity'', hum),
                (''pressure'', pres), (''description'', descr),
                (''wind_speed'', speed), (''clouds'', cl_all), (''timestamp'', PFloat clock)]"
    unfolding build_observation_def then_exn_Inr_iff by blast
  from w(2) obtain wd where wd: "wind = PDict wd" "speed = dict_get wd ''speed'' (PInt 0)"
    by (cases wind) auto
  from c(2) obtain cd where cd: "cl = PDict cd" "cl_all = dict_get cd ''all'' (PInt 0)"
    by (cases cl) auto
  from w c d wd cd show ?thesis by blast
qed

lemma fetch_city_weather_Some:
  assumes "fetch_city_weather rt tenv cname = Some d"
  shows "\<exists>data. reply tenv = Response 200 (Some data) \<and>
           build_observation rt data (finished_at tenv) cname = Inr d"
  using assms unfolding fetch_city_weather_def
  by (auto split: http_outcome.splits if_splits option.splits sum.splits)


lemma fetched_city:
  assumes "fetch_city_weather rt tenv cname = Some d"
  shows "d \<noteq> []" and "dict_getitem d ''city'' = Inr (PStr cname)"
proof -
  from fetch_city_weather_Some [OF assms] obtain data where
    "build_observation rt data (finished_at tenv) cname = Inr d" by blast
  from build_observation_Inr [OF this] show "d \<noteq> []" and "dict_getitem d ''city'' = Inr (PStr cname)"
    by (auto simp: dict_getitem_def)
qed

lemma successful_results_gather:
  "successful_results (map (\<lambda>(i, c). Inr (fetch_city_weather rt (net i) c)) (enumerate n cities))
     = List.map_filter (\<lambda>(i, c). fetch_city_weather rt (net i) c) (enumerate n cities)"
proof (induction cities arbitrary: n)
  case Nil
  show ?case by (simp add: map_filter_simps)
next
  case (Cons c cities)
  show ?case
  proof (cases "fetch_city_weather rt (net n) c")
    case None
    with Cons.IH [of "Suc n"] show ?thesis by (simp add: map_filter_simps)
  next
    case (Some d)
    from fetched_city(1) [OF Some] Some Cons.IH [of "Suc n"] show ?thesis
      by (simp add: map_filter_simps)
  qed
qed

lemma fetched_cities_subseq:
  "subseq (map (\<lambda>d. dict_getitem d ''city'')
             (List.map_filter (\<lambda>(i, c). fetch_city_weather rt (net i) c) (enumerate n cities)))
          (map (\<lambda>c. Inr (PStr c)) cities)"
proof (induction cities arbitrary: n)
  case Nil
  show ?case by (simp add: map_filter_simps)
next
  case (Cons c cities)
  show ?case
  proof (cases "fetch_city_weather rt (net n) c")
    case None
    with Cons.IH [of "Suc n"] show ?thesis by (auto simp: map_filter_simps intro: list_emb_Cons)
  next
    case (Some d)
    from fetched_city(2) [OF Some] Some Cons.IH [of "Suc n"] show ?thesis
      by (simp add: map_filter_simps)
  qed
qed

lemma first_desc_mem: "first_desc rows = Some r \<Longrightarrow> r \<in> set rows"
  by (induction rows arbitrary: r) (auto split: option.splits if_splits)

lemma first_desc_latest:
  assumes "x \<in> set rows" and "\<forall>r\<in>set rows. created_at r \<noteq> None"
  shows "\<exists>r t tx. first_desc rows = Some r \<and> created_at r = Some t \<and> created_at x = Some tx
           \<and> instant tx \<le> instant t"
  using assms
proof (induction rows)
  case Nil
  then show ?case by simp
next
  case (Cons a rows)
  from Cons.prems obtain ta where ta: "created_at a = Some ta" by auto
  show ?case
  proof (cases "first_desc rows")
    case None
    then have "rows = []" by (cases rows) (auto split: option.splits if_splits)
    with Cons.prems ta None show ?thesis by auto
  next
    case (Some s)
    from first_desc_mem [OF Some] Cons.prems obtain ts where ts: "created_at s = Some ts" by auto
    show ?thesis
    proof (cases "x = a")
      case True
      with Some ta ts show ?thesis by (auto simp: desc_before_def)
    next
      case False
      with Cons.prems have "x \<in> set rows" "\<forall>r\<in>set rows. created_at r \<noteq> None" by auto
      from Cons.IH [OF this] Some ts obtain tx where
        "created_at x = Some tx" "instant tx \<le> instant ts" by auto
      with Some ta ts show ?thesis by (auto simp: desc_before_def)
    qed
  qed
qed

lemma save_one_fresh:
  assumes "dict_getitem wd ''city'' = Inr c"
    and "dict_getitem wd ''temperature'' = Inr temp"
    and "dict_getitem wd ''humidity'' = Inr hum"
    and "dict_getitem wd ''pressure'' = Inr pres"
    and "dict_getitem wd ''description'' = Inr descr"
    and "session_ok env" and "gate_session_ok env" and "query_ok env"
    and "first_desc (filter (\<lambda>r. city r = c) store) = Some r"
    and "created_at r = Some t"
    and "age_minutes_of (utc_now env) t < 30"
  shows "save_one rt env store wd s k = Inr (s, k + 1, store)"
proof -
  from assms(6-11) have "save_weather_data rt env store c temp hum pres descr
       (dict_get wd ''wind_speed'' PNone) (dict_get wd ''clouds'' PNone) (Some 30) True
     = Inr (skipped_result rt c (Some (age_minutes_of (utc_now env) t)) 30, store)"
    by (simp add: save_weather_data_def resolve_min_age_def is_data_fresh_def
        get_last_weather_record_def)
  with assms(1-5) show ?thesis
    by (simp add: save_one_def skipped_result_items)
qed

lemma save_loop_all_skipped:
  assumes "\<And>j s k. j < length wds \<Longrightarrow>
             wds ! j \<noteq> [] \<and> save_one rt (world (i + j)) store (wds ! j) s k = Inr (s, k + 1, store)"
  shows "save_loop rt world i store wds s k = (s, k + length wds, store)"
  using assms
proof (induction wds arbitrary: i k)
  case Nil
  show ?case by simp
next
  case (Cons wd wds)
  from Cons.prems [of 0 s k] have head: "wd \<noteq> []"
    "save_one rt (world i) store wd s k = Inr (s, k + 1, store)" by simp_all
  have tail: "wds ! j \<noteq> [] \<and> save_one rt (world (Suc i + j)) store (wds ! j) s' k' = Inr (s', k' + 1, store)"
    if "j < length wds" for j s' k'
    using Cons.prems [of "Suc j" s' k'] that by simp
  from Cons.IH [of "Suc i" "k + 1", OF tail] head show ?case by simp
qed

lemma save_loop_all_saved:
  assumes "save_loop rt world i store wds s k = (s + length wds, k', store')"
  shows "\<exists>new. store' = store @ new
           \<and> (\<forall>row\<in>set new. \<exists>j<length wds. created_at row = Some (Aware (server_now (world (i + j)))))
           \<and> (\<forall>wd\<in>set wds. \<exists>row\<in>set new. dict_getitem wd ''city'' = Inr (city row))"
  using assms
proof (induction wds arbitrary: i store s k)
  case Nil
  then show ?case by simp
next
  case (Cons wd wds)
  have no_skip: False if "save_loop rt world (Suc i) store wds s k = (s + length (wd # wds), k', store')"
    using save_loop_counts [OF that] by simp
  show ?case
  proof (cases "truthy (PDict wd)")
    case False
    with Cons.prems no_skip show ?thesis by simp
  next
    case True
    show ?thesis
    proof (cases "save_one rt (world i) store wd s k")
      case (Inl e)
      with True Cons.prems no_skip show ?thesis by simp
    next
      case (Inr t)
      obtain s1 k1 st1 where t: "t = (s1, k1, st1)" by (cases t) auto
      from Inr t have one: "save_one rt (world i) store wd s k = Inr (s1, k1, st1)" by simp
      from one True Cons.prems
      have rest: "save_loop rt world (Suc i) st1 wds s1 k1 = (s + length (wd # wds), k', store')"
        by simp
      from save_loop_counts [OF rest] have "s1 \<noteq> s" by auto
      with save_one_cases [OF one] obtain row where
        row: "s1 = s + 1" "st1 = store @ [row]" "dict_getitem wd ''city'' = Inr (city row)"
             "created_at row = Some (Aware (server_now (world i)))"
        by auto
      from rest row(1) have "save_loop rt world (Suc i) st1 wds (s + 1) k1 = ((s + 1) + length wds, k', store')"
        by simp
      from Cons.IH [OF this] obtain new where
        new: "store' = st1 @ new"
          "\<forall>r\<in>set new. \<exists>j<length wds. created_at r = Some (Aware (server_now (world (Suc i + j))))"
          "\<forall>w\<in>set wds. \<exists>r\<in>set new. dict_getitem w ''city'' = Inr (city r)"
        by blast
      have a: "store' = store @ (row # new)" using new(1) row(2) by simp
      have b: "\<exists>j<length (wd # wds). created_at r = Some (Aware (server_now (world (i + j))))"
        if "r \<in> set (row # new)" for r
      proof (cases "r = row")
        case True
        with row(4) have "0 < length (wd # wds) \<and> created_at r = Some (Aware (server_now (world (i + 0))))"
          by simp
        then show ?thesis by blast
      next
        case False
        with that have "r \<in> set new" by simp
        with new(2) obtain j where "j < length wds"
          "created_at r = Some (Aware (server_now (world (Suc i + j))))" by blast
        then have "Suc j < length (wd # wds) \<and> created_at r = Some (Aware (server_now (world (i + Suc j))))"
          by simp
        then show ?thesis by blast
      qed
      have c: "\<exists>r\<in>set (row # new). dict_getitem w ''city'' = Inr (city r)"
        if "w \<in> set (wd # wds)" for w
      proof (cases "w = wd")
        case True
        with row(3) show ?thesis by simp
      next
        case False
        with that have "w \<in> set wds" by simp
        with new(3) show ?thesis by auto
      qed
      from a b c show ?thesis by blast
    qed
  qed
qed

lemma fetched_keys:
  assumes "fetch_city_weather rt tenv cname = Some d"
  shows "\<exists>temp hum pres descr. dict_getitem d ''temperature'' = Inr temp
           \<and> dict_getitem d ''humidity'' = Inr hum \<and> dict_getitem d ''pressure'' = Inr pres
           \<and> dict_getitem d ''description'' = Inr descr"
proof -
  from fetch_city_weather_Some [OF assms] obtain data where
    "build_observation rt data (finished_at tenv) cname = Inr d" by blast
  from build_observation_Inr [OF this] show ?thesis
    by (auto simp: dict_getitem_def)
qed

lemma map_filter_fetched:
  "d \<in> set (List.map_filter (\<lambda>(i, c). fetch_city_weather rt (net i) c) (enumerate n cities))
     \<Longrightarrow> \<exists>i c. c \<in> set cities \<and> fetch_city_weather rt (net i) c = Some d"
proof (induction cities arbitrary: n)
  case Nil
  then show ?case by (simp add: map_filter_simps)
next
  case (Cons c cities)
  show ?case
  proof (cases "fetch_city_weather rt (net n) c")
    case None
    with Cons.prems have "d \<in> set (List.map_filter (\<lambda>(i, c). fetch_city_weather rt (net i) c) (enumerate (Suc n) cities))"
      by (simp add: map_filter_simps)
    from Cons.IH [OF this] show ?thesis by auto
  next
    case (Some d')
    with Cons.prems have "d = d' \<or> d \<in> set (List.map_filter (\<lambda>(i, c). fetch_city_weather rt (net i) c) (enumerate (Suc n) cities))"
      by (simp add: map_filter_simps)
    then show ?thesis
    proof
      assume "d = d'"
      with Some show ?thesis by auto
    next
      assume "d \<in> set (List.map_filter (\<lambda>(i, c). fetch_city_weather rt (net i) c) (enumerate (Suc n) cities))"
      from Cons.IH [OF this] show ?thesis by auto
    qed
  qed
qed

lemma parse_all_member:
  assumes "d \<in> set (parse_all_cities_sync rt net cities)"
  shows "d \<noteq> [] \<and> (\<exists>c temp hum pres descr. c \<in> set cities
           \<and> dict_getitem d ''city'' = Inr (PStr c)
           \<and> dict_getitem d ''temperature'' = Inr temp
           \<and> dict_getitem d ''humidity'' = Inr hum \<and> dict_getitem d ''pressure'' = Inr pres
           \<and> dict_getitem d ''description'' = Inr descr)"
proof -
  from assms have "d \<in> set (List.map_filter (\<lambda>(i, c). fetch_city_weather rt (net i) c) (enumerate 0 cities))"
    by (simp add: parse_all_cities_sync_def fetch_all_cities_async_def gather_tasks_def
        successful_results_gather)
  from map_filter_fetched [OF this] obtain i c where
    c: "c \<in> set cities" "fetch_city_weather rt (net i) c = Some d" by blast
  from fetched_city [OF c(2)] fetched_keys [OF c(2)] c(1) show ?thesis by blast
qed

lemma parse_all_length: "length (parse_all_cities_sync rt net cities) \<le> length cities"
proof -
  have "subseq (map (\<lambda>d. dict_getitem d ''city'') (parse_all_cities_sync rt net cities))
          (map (\<lambda>c. Inr (PStr c)) cities)"
    by (simp add: parse_all_cities_sync_def fetch_all_cities_async_def gather_tasks_def
        successful_results_gather fetched_cities_subseq)
  from list_emb_length [OF this] show ?thesis by simp
qed

lemma parse_all_complete:
  assumes "length (parse_all_cities_sync rt net cities) = length cities"
  shows "map (\<lambda>d. dict_getitem d ''city'') (parse_all_cities_sync rt net cities)
           = map (\<lambda>c. Inr (PStr c)) cities"
proof -
  have "subseq (map (\<lambda>d. dict_getitem d ''city'') (parse_all_cities_sync rt net cities))
          (map (\<lambda>c. Inr (PStr c)) cities)"
    by (simp add: parse_all_cities_sync_def fetch_all_cities_async_def gather_tasks_def
        successful_results_gather fetched_cities_subseq)
  from subseq_same_length [OF this] assms show ?thesis by simp
qed

lemma save_loop_appends:
  "save_loop rt world i store wds s k = (s', k', store') \<Longrightarrow>
     \<exists>new. store' = store @ new \<and> length new = s' - s"
proof (induction wds arbitrary: i store s k)
  case Nil
  then show ?case by simp
next
  case (Cons wd wds)
  show ?case
  proof (cases "truthy (PDict wd)")
    case False
    with Cons.prems have "save_loop rt world (Suc i) store wds s k = (s', k', store')" by simp
    from Cons.IH [OF this] show ?thesis .
  next
    case True
    show ?thesis
    proof (cases "save_one rt (world i) store wd s k")
      case (Inl e)
      with True Cons.prems have "save_loop rt world (Suc i) store wds s k = (s', k', store')" by simp
      from Cons.IH [OF this] show ?thesis .
    next
      case (Inr t)
      obtain s1 k1 st1 where t: "t = (s1, k1, st1)" by (cases t) auto
      with Inr True Cons.prems have rest: "save_loop rt world (Suc i) st1 wds s1 k1 = (s', k', store')"
        by simp
      from Cons.IH [OF rest] obtain new where new: "store' = st1 @ new" "length new = s' - s1"
        by blast
      from save_loop_counts [OF rest] have le: "s1 \<le> s'" by simp
      from save_one_cases [OF Inr [unfolded t]] show ?thesis
      proof (elim disjE conjE exE)
        fix row assume "s1 = s + 1" "st1 = store @ [row]"
        with new le have "store' = store @ (row # new) \<and> length (row # new) = s' - s" by simp
        then show ?thesis by blast
      next
        assume "s1 = s" "st1 = store"
        with new show ?thesis by blast
      next
        assume "s1 = s" "st1 = store"
        with new show ?thesis by blast
      qed
    qed
  qed
qed

lemma age_below_threshold:
  assumes "now - lo < 30 * 60 * 1000000" and "lo \<le> instant t"
  shows "age_minutes_of now t < 30"
proof -
  from assms have "now - instant t < 1800000000" by simp
  then have "(of_int (now - instant t) :: rat) < of_int 1800000000" by (simp only: of_int_less_iff)
  then have "(of_int (now - instant t) / 60000000 :: rat) < of_int 30" by simp
  from age_skip [OF _ this] show ?thesis by (simp add: age_minutes_of_instant)
qed

lemma demo_ages:
  "age_minutes_of 600000000 (Aware 0) = 10"
  "age_minutes_of 600000000 (Aware (- 3000000000)) = 60"
  "age_minutes_of 900000000 (Aware 600000001) < 30"
proof -
  from measured_age_whole_minutes [of 10] show "age_minutes_of 600000000 (Aware 0) = 10"
    by (simp add: age_minutes_of_instant instant_def)
  from measured_age_whole_minutes [of 60] show "age_minutes_of 600000000 (Aware (- 3000000000)) = 60"
    by (simp add: age_minutes_of_instant instant_def)
  have "(of_int 299999999 / 60000000 :: rat) < of_int 30" by simp
  from age_skip [OF _ this] show "age_minutes_of 900000000 (Aware 600000001) < 30"
    by (simp add: age_minutes_of_instant instant_def)
qed

lemma demo_fetch:
  "parse_all_cities_sync demo_lib (\<lambda>i. answered payload_missing) [''Moscow,ru''] = [demo_observation]"
  by (simp add: parse_all_cities_sync_def fetch_all_cities_async_def gather_tasks_def
      fetch_city_weather_def build_observation_def answered_def payload_missing_def
      demo_lib_def demo_observation_def dict_getitem_def dict_get_def)

lemma demo_observation_truthy: "demo_observation \<noteq> []"
  by (simp add: demo_observation_def)

lemma demo_save_one:
  "save_one demo_lib demo_env [] demo_observation 0 0 = Inr (1, 0, [demo_observed_row])"
  "save_one demo_lib later_env [demo_observed_row] demo_observation 0 0 = Inr (0, 1, [demo_observed_row])"
  "save_one demo_lib demo_env [demo_row] demo_observation 0 0 = Inr (0, 1, [demo_row])"
  "save_one demo_lib (demo_env\<lparr>gate_session_ok := False\<rparr>) [demo_row] demo_observation 0 0
     = Inr (0, 0, [demo_row])"
  "save_one demo_lib (demo_env\<lparr>session_ok := False\<rparr>) [demo_row] demo_observation 0 0
     = Inl SQLAlchemyError"
  "save_one demo_lib demo_env [old_row] demo_observation 0 0
     = Inr (1, 0, [old_row, demo_observed_row])"
  "save_one demo_lib later_env [old_row, demo_observed_row] demo_observation 0 0
     = Inr (0, 1, [old_row, demo_observed_row])"
  by (simp_all add: save_one_def old_row_def desc_before_def instant_def
      save_weather_data_def resolve_min_age_def is_data_fresh_def
      get_last_weather_record_def write_branch_def demo_env_def later_env_def demo_lib_def
      demo_observation_def demo_observed_row_def demo_row_def new_row_def demo_ages
      dict_getitem_def dict_get_def saved_result_def skipped_result_def error_result_def)



lemma save_loop_shift_world:
  "save_loop rt world (i + n) store wds s k = save_loop rt (\<lambda>j. world (n + j)) i store wds s k"
proof (induction wds arbitrary: i store s k)
  case Nil
  show ?case by simp
next
  case (Cons wd wds)
  have w: "world (i + n) = world (n + i)" by (simp add: add.commute)
  from Cons.IH [of "Suc i"] show ?case by (simp add: w split: sum.splits prod.splits)
qed

lemma save_one_counters:
  "save_one rt env store wd s k
     = (case save_one rt env store wd 0 0 of
          Inl e \<Rightarrow> Inl e
        | Inr (a, b, st) \<Rightarrow> Inr (s + a, k + b, st))"
  by (simp add: save_one_def then_exn_def split: sum.splits prod.splits)

lemma save_loop_counters:
  "save_loop rt world i store wds s k
     = (case save_loop rt world i store wds 0 0 of (a, b, st) \<Rightarrow> (s + a, k + b, st))"
proof (induction wds arbitrary: i store s k)
  case Nil
  show ?case by simp
next
  case (Cons wd wds)
  show ?case
  proof (cases "truthy (PDict wd)")
    case False
    with Cons.IH [of "Suc i" store s k] show ?thesis by simp
  next
    case True
    show ?thesis
    proof (cases "save_one rt (world i) store wd 0 0")
      case (Inl e)
      then have "save_one rt (world i) store wd s k = Inl e"
        by (simp add: save_one_counters [of rt "world i" store wd s k])
      with Inl True Cons.IH [of "Suc i" store s k] show ?thesis by simp
    next
      case (Inr t)
      obtain a b st where t: "t = (a, b, st)" by (cases t) auto
      with Inr have "save_one rt (world i) store wd s k = Inr (s + a, k + b, st)"
        by (simp add: save_one_counters [of rt "world i" store wd s k])
      with Inr t True Cons.IH [of "Suc i" st "s + a" "k + b"] Cons.IH [of "Suc i" st a b]
      show ?thesis by (simp add: split_beta add.assoc)
    qed
  qed
qed

lemma save_loop_append:
  "save_loop rt world i store (xs @ ys) s k
     = (case save_loop rt world i store xs s k of
          (s', k', st') \<Rightarrow> save_loop rt world (i + length xs) st' ys s' k')"
proof (induction xs arbitrary: i store s k)
  case Nil
  show ?case by simp
next
  case (Cons x xs)
  show ?case
    by (simp add: Cons.IH split: sum.splits prod.splits)
qed

lemma save_results_as_loop:
  "save_results_to_db rt world store (Some wds)
     = (case save_loop rt world 0 store wds 0 0 of (a, b, st) \<Rightarrow> (a, st))"
  by (cases wds) (simp_all add: save_results_to_db_def)


section \<open>The Data Source Client and the Fetch Orchestrator\<close>

text \<open>
  Claim C2, as amended. When the fetch succeeds on a body whose \<open>wind\<close> object has
  no \<open>speed\<close>, the observation holds the integer 0 under \<open>wind_speed\<close>; likewise
  \<open>clouds\<close> is 0 when the \<open>clouds\<close> object has no \<open>all\<close>. The default of
  \<open>.get\<close> is the number zero, not \<open>None\<close>.
\<close>

theorem missing_optional_fields_default_to_zero:
  assumes "fetch_city_weather rt tenv cname = Some d"
    and "reply tenv = Response status (Some data)"
  shows "(\<forall>wind. getitem data ''wind'' = Inr (PDict wind) \<and> map_of wind ''speed'' = None
            \<longrightarrow> dict_getitem d ''wind_speed'' = Inr (PInt 0))
       \<and> (\<forall>cl. getitem data ''clouds'' = Inr (PDict cl) \<and> map_of cl ''all'' = None
            \<longrightarrow> dict_getitem d ''clouds'' = Inr (PInt 0))"
proof -
  from fetch_city_weather_Some [OF assms(1)] assms(2) have
    "build_observation rt data (finished_at tenv) cname = Inr d" by auto
  from build_observation_Inr [OF this] show ?thesis
    by (auto simp: dict_getitem_def dict_get_def)
qed

text \<open>The example body without both fields gives zero for both.\<close>

theorem missing_optional_fields_default_to_zero_witness:
  "fetch_city_weather demo_lib (answered payload_missing) ''Moscow,ru'' = Some demo_observation
   \<and> reply (answered payload_missing) = Response 200 (Some payload_missing)
   \<and> getitem payload_missing ''wind'' = Inr (PDict [])
   \<and> getitem payload_missing ''clouds'' = Inr (PDict [])
   \<and> dict_getitem demo_observation ''wind_speed'' = Inr (PInt 0)
   \<and> dict_getitem demo_observation ''clouds'' = Inr (PInt 0)"
proof -
  have a: "fetch_city_weather demo_lib (answered payload_missing) ''Moscow,ru'' = Some demo_observation"
    by (simp add: fetch_city_weather_def build_observation_def answered_def payload_missing_def
        demo_lib_def demo_observation_def dict_getitem_def dict_get_def)
  have b: "reply (answered payload_missing) = Response 200 (Some payload_missing)"
    by (simp add: answered_def)
  have c: "getitem payload_missing ''wind'' = Inr (PDict [])"
    "getitem payload_missing ''clouds'' = Inr (PDict [])"
    by (simp_all add: payload_missing_def dict_getitem_def)
  from missing_optional_fields_default_to_zero [OF a b] a b c show ?thesis by simp
qed

text \<open>
  Claim C2 as stated fails: the body without \<open>wind.speed\<close> and \<open>clouds.all\<close> gives
  the observation with the number 0 in both fields, the very observation of the body
  that reports both as zero.
\<close>

theorem missing_optional_fields_counterexample:
  "fetch_city_weather demo_lib (answered payload_missing) ''Moscow,ru''
     = Some [(''city'', PStr ''Moscow,ru''), (''temperature'', PFloat 2), (''humidity'', PInt 40),
             (''pressure'', PInt 1010), (''description'', PStr ''sun''), (''wind_speed'', PInt 0),
             (''clouds'', PInt 0), (''timestamp'', PFloat 0)]
   \<and> fetch_city_weather demo_lib (answered payload_missing) ''Moscow,ru''
     = fetch_city_weather demo_lib (answered payload_zero) ''Moscow,ru''"
  by (simp add: fetch_city_weather_def build_observation_def answered_def payload_missing_def
      payload_zero_def demo_lib_def dict_getitem_def dict_get_def)

text \<open>
  Claim C3, as amended. \<open>fetch_all_cities_async\<close> returns one list and nothing
  else: the observations of the tasks that returned one, in the order of the input. The
  cities of the returned observations are a subsequence of the input; a failed city
  leaves nothing in the return value.
\<close>

theorem fetch_all_returns_successes_only:
  "fetch_all_cities_async rt net cities
     = List.map_filter (\<lambda>(i, c). fetch_city_weather rt (net i) c) (enumerate 0 cities)
   \<and> subseq (map (\<lambda>d. dict_getitem d ''city'') (fetch_all_cities_async rt net cities))
            (map (\<lambda>c. Inr (PStr c)) cities)"
  unfolding fetch_all_cities_async_def gather_tasks_def successful_results_gather
  using fetched_cities_subseq by blast

text \<open>
  Claim C3 as stated fails: the return value is the same whether the failed city is
  \<open>London,uk\<close> or \<open>Berlin,de\<close>, and the same whether the request timed out or was
  refused with status 401, so it maps no city to a failure.
\<close>

theorem failures_not_attributable_counterexample:
  "fetch_all_cities_async demo_lib first_only [''Moscow,ru'', ''London,uk''] = [demo_observation]
   \<and> fetch_all_cities_async demo_lib first_only [''Moscow,ru'', ''Berlin,de''] = [demo_observation]
   \<and> fetch_all_cities_async demo_lib (\<lambda>i. timed_out) [''London,uk''] = []
   \<and> fetch_all_cities_async demo_lib (\<lambda>i. unauthorized) [''London,uk''] = []"
  by (simp add: fetch_all_cities_async_def gather_tasks_def fetch_city_weather_def
      build_observation_def first_only_def answered_def timed_out_def unauthorized_def
      payload_missing_def demo_lib_def demo_observation_def dict_getitem_def dict_get_def)

section \<open>The Freshness Gate\<close>




text \<open>
  Claim C9. When the most recent row of the city has no \<open>created_at\<close>,
  \<open>is_data_fresh\<close> returns \<open>(False, None, None)\<close>, which is also its result on the
  table without any row of that city: neither the row nor an age is reported, and
  \<open>save_weather_data\<close> goes on to the write branch.
\<close>

theorem null_created_at_as_no_record:
  assumes "get_last_weather_record env store c = Inr (Some r)" and "created_at r = None"
  shows "is_data_fresh env store c m = Inr (False, None, None)
       \<and> is_data_fresh env store c m = is_data_fresh env (filter (\<lambda>r. city r \<noteq> c) store) c m
       \<and> (session_ok env \<and> resolve_min_age env mo = Inr m \<longrightarrow>
            save_weather_data rt env store c temp hum pres descr wind cl mo True
              = Inr (write_branch rt env store c temp hum pres descr wind cl))"
proof -
  from assms(1) have g: "gate_session_ok env"
    by (auto simp: get_last_weather_record_def split: if_splits)
  have e: "filter (\<lambda>r. city r = c) (filter (\<lambda>r. city r \<noteq> c) store) = []"
    by (induction store) auto
  from g have n: "is_data_fresh env (filter (\<lambda>r. city r \<noteq> c) store) c m = Inr (False, None, None)"
    by (simp add: is_data_fresh_def get_last_weather_record_def e)
  from assms have f: "is_data_fresh env store c m = Inr (False, None, None)"
    by (simp add: is_data_fresh_def)
  from f n show ?thesis by (simp add: save_weather_data_def)
qed

text \<open>
  PostgreSQL orders NULL first, so the row without \<open>created_at\<close> hides the fresh row
  of the same city.
\<close>

theorem null_created_at_as_no_record_witness:
  "get_last_weather_record demo_env [demo_row, null_row] (PStr ''Moscow,ru'') = Inr (Some null_row)
   \<and> created_at null_row = None
   \<and> is_data_fresh demo_env [demo_row, null_row] (PStr ''Moscow,ru'') 30 = Inr (False, None, None)
   \<and> is_data_fresh demo_env [demo_row] (PStr ''Moscow,ru'') 30 = Inr (True, Some demo_row, Some 10)"
proof -
  have a: "get_last_weather_record demo_env [demo_row, null_row] (PStr ''Moscow,ru'') = Inr (Some null_row)"
    by (simp add: get_last_weather_record_def demo_env_def demo_row_def null_row_def desc_before_def)
  have b: "created_at null_row = None" by (simp add: null_row_def)
  have c: "is_data_fresh demo_env [demo_row] (PStr ''Moscow,ru'') 30 = Inr (True, Some demo_row, Some 10)"
    by (simp add: is_data_fresh_def get_last_weather_record_def demo_env_def demo_row_def demo_ages)
  from null_created_at_as_no_record [OF a b, of 30] a b c show ?thesis by simp
qed

section \<open>The Celery task\<close>

text \<open>
  Claim C10. Whenever \<open>save_weather_data\<close> returns, whatever the returned dictionary
  says, \<open>save_weather_task\<close> reports the status \<open>success\<close> for the city: the
  dictionary has five keys and is truthy.
\<close>

theorem save_weather_task_reports_success:
  assumes "dict_getitem weather_data ''city'' = Inr c"
    and "dict_getitem weather_data ''temperature'' = Inr temp"
    and "dict_getitem weather_data ''humidity'' = Inr hum"
    and "dict_getitem weather_data ''pressure'' = Inr pres"
    and "dict_getitem weather_data ''description'' = Inr descr"
    and "save_weather_data rt env store c temp hum pres descr PNone PNone None True = Inr (result, store')"
  shows "save_weather_task rt env store weather_data
           = ([(''status'', PStr ''success''), (''city'', c)], store')"
proof -
  from save_weather_data_cases [OF assms(6)] have "result \<noteq> []"
    by (auto simp: saved_result_def error_result_def skipped_result_def)
  with assms show ?thesis by (simp add: save_weather_task_def)
qed

text \<open>
  A failed commit (reason \<open>error\<close>) and a skipped observation (reason
  \<open>skipped_fresh\<close>) are both reported as \<open>success\<close>.
\<close>

theorem save_weather_task_reports_success_witness:
  "dict_getitem demo_message ''city'' = Inr (PStr ''Moscow,ru'')
   \<and> dict_getitem demo_message ''temperature'' = Inr (PFloat 2)
   \<and> dict_getitem demo_message ''humidity'' = Inr (PInt 40)
   \<and> dict_getitem demo_message ''pressure'' = Inr (PInt 1010)
   \<and> dict_getitem demo_message ''description'' = Inr (PStr ''sun'')
   \<and> save_weather_data demo_lib (demo_env\<lparr>commit_ok := False\<rparr>) [] (PStr ''Moscow,ru'') (PFloat 2)
        (PInt 40) (PInt 1010) (PStr ''sun'') PNone PNone None True
       = Inr (error_result demo_lib (PStr ''Moscow,ru'') SQLAlchemyError, [])
   \<and> dict_getitem (error_result demo_lib (PStr ''Moscow,ru'') SQLAlchemyError) ''reason''
       = Inr (PStr ''error'')
   \<and> save_weather_task demo_lib (demo_env\<lparr>commit_ok := False\<rparr>) [] demo_message
       = ([(''status'', PStr ''success''), (''city'', PStr ''Moscow,ru'')], [])
   \<and> save_weather_data demo_lib demo_env [demo_row] (PStr ''Moscow,ru'') (PFloat 2)
        (PInt 40) (PInt 1010) (PStr ''sun'') PNone PNone None True
       = Inr (skipped_result demo_lib (PStr ''Moscow,ru'') (Some 10) 30, [demo_row])
   \<and> save_weather_task demo_lib demo_env [demo_row] demo_message
       = ([(''status'', PStr ''success''), (''city'', PStr ''Moscow,ru'')], [demo_row])"
proof -
  have k: "dict_getitem demo_message ''city'' = Inr (PStr ''Moscow,ru'')"
    "dict_getitem demo_message ''temperature'' = Inr (PFloat 2)"
    "dict_getitem demo_message ''humidity'' = Inr (PInt 40)"
    "dict_getitem demo_message ''pressure'' = Inr (PInt 1010)"
    "dict_getitem demo_message ''description'' = Inr (PStr ''sun'')"
    by (simp_all add: demo_message_def dict_getitem_def)
  have e: "save_weather_data demo_lib (demo_env\<lparr>commit_ok := False\<rparr>) [] (PStr ''Moscow,ru'') (PFloat 2)
        (PInt 40) (PInt 1010) (PStr ''sun'') PNone PNone None True
       = Inr (error_result demo_lib (PStr ''Moscow,ru'') SQLAlchemyError, [])"
    by (simp add: save_weather_data_def resolve_min_age_def is_data_fresh_def
        get_last_weather_record_def write_branch_def demo_env_def demo_lib_def)
  have f: "save_weather_data demo_lib demo_env [demo_row] (PStr ''Moscow,ru'') (PFloat 2)
        (PInt 40) (PInt 1010) (PStr ''sun'') PNone PNone None True
       = Inr (skipped_result demo_lib (PStr ''Moscow,ru'') (Some 10) 30, [demo_row])"
    by (simp add: save_weather_data_def resolve_min_age_def is_data_fresh_def
        get_last_weather_record_def demo_env_def demo_row_def demo_ages)
  from save_weather_task_reports_success [OF k e] save_weather_task_reports_success [OF k f]
    k e f error_result_items(3) [of demo_lib "PStr ''Moscow,ru''" SQLAlchemyError]
  show ?thesis by simp
qed

section \<open>The insert and the failed read\<close>

text \<open>
  Claim C6. Once the session exists, an insert attempt (the write branch, which is all
  of \<open>save_weather_data\<close> when the gate is off) returns a result dictionary: either
  \<open>saved\<close> is true with the reason \<open>saved\<close> and the table has gained exactly one row,
  which holds the city, the temperature rounded to one decimal, the humidity, the
  pressure, the description, the wind speed and the clouds of the observation together
  with the key and the time stamp of the server; or \<open>saved\<close> is false with the reason
  \<open>error\<close> and the table is as it was.
\<close>

theorem insert_all_or_nothing:
  assumes "session_ok env" and "resolve_min_age env mo = Inr m"
  shows "\<exists>result store'.
           save_weather_data rt env store c temp hum pres descr wind cl mo False = Inr (result, store')
         \<and> write_branch rt env store c temp hum pres descr wind cl = (result, store')
         \<and> ((dict_getitem result ''saved'' = Inr (PBool True)
               \<and> dict_getitem result ''skipped'' = Inr (PBool False)
               \<and> dict_getitem result ''reason'' = Inr (PStr ''saved'')
               \<and> commit_ok env
               \<and> (\<exists>rounded. py_round1 rt temp = Inr rounded
                     \<and> store' = store @
                         [\<lparr>row_id = assigned_id env, city = c, temperature = rounded,
                           humidity = hum, pressure = pres, description = descr,
                           wind_speed = wind, clouds = cl,
                           created_at = Some (Aware (server_now env))\<rparr>]))
            \<or> (dict_getitem result ''saved'' = Inr (PBool False)
               \<and> dict_getitem result ''skipped'' = Inr (PBool False)
               \<and> dict_getitem result ''reason'' = Inr (PStr ''error'')
               \<and> store' = store))"
proof -
  obtain result store' where w: "write_branch rt env store c temp hum pres descr wind cl = (result, store')"
    by (cases "write_branch rt env store c temp hum pres descr wind cl") auto
  from assms w have s: "save_weather_data rt env store c temp hum pres descr wind cl mo False = Inr (result, store')"
    by (simp add: save_weather_data_def)
  from write_branch_cases [OF w] have
    "(dict_getitem result ''saved'' = Inr (PBool True)
               \<and> dict_getitem result ''skipped'' = Inr (PBool False)
               \<and> dict_getitem result ''reason'' = Inr (PStr ''saved'')
               \<and> commit_ok env
               \<and> (\<exists>rounded. py_round1 rt temp = Inr rounded
                     \<and> store' = store @
                         [\<lparr>row_id = assigned_id env, city = c, temperature = rounded,
                           humidity = hum, pressure = pres, description = descr,
                           wind_speed = wind, clouds = cl,
                           created_at = Some (Aware (server_now env))\<rparr>]))
            \<or> (dict_getitem result ''saved'' = Inr (PBool False)
               \<and> dict_getitem result ''skipped'' = Inr (PBool False)
               \<and> dict_getitem result ''reason'' = Inr (PStr ''error'')
               \<and> store' = store)"
    by (auto simp: saved_result_items error_result_items new_row_def)
  with w s show ?thesis by blast
qed

text \<open>
  A commit that succeeds and a commit that fails, for an observation with wind speed
  and clouds, on the example store; the runtime of the first call rounds 2.26 to 2.3.
\<close>

theorem insert_all_or_nothing_witness:
  "session_ok demo_env \<and> resolve_min_age demo_env None = Inr 30
   \<and> save_weather_data \<lparr>round1 = (\<lambda>x. 23 / 10), render = (\<lambda>e. [])\<rparr> demo_env [demo_row]
        (PStr ''Moscow,ru'') (PFloat (226 / 100)) (PInt 40) (PInt 1010) (PStr ''sun'')
        (PFloat 3) (PInt 75) None False
       = Inr (saved_result \<lparr>round1 = (\<lambda>x. 23 / 10), render = (\<lambda>e. [])\<rparr> (PStr ''Moscow,ru''),
              [demo_row,
               \<lparr>row_id = 7, city = PStr ''Moscow,ru'', temperature = PFloat (23 / 10),
                 humidity = PInt 40, pressure = PInt 1010, description = PStr ''sun'',
                 wind_speed = PFloat 3, clouds = PInt 75,
                 created_at = Some (Aware 600000001)\<rparr>])
   \<and> session_ok (demo_env\<lparr>commit_ok := False\<rparr>)
   \<and> resolve_min_age (demo_env\<lparr>commit_ok := False\<rparr>) None = Inr 30
   \<and> save_weather_data demo_lib (demo_env\<lparr>commit_ok := False\<rparr>) [demo_row] (PStr ''Moscow,ru'')
        (PFloat 2) (PInt 40) (PInt 1010) (PStr ''sun'') (PFloat 3) (PInt 75) None False
       = Inr (error_result demo_lib (PStr ''Moscow,ru'') SQLAlchemyError, [demo_row])"
proof -
  define lib :: pylib where "lib = \<lparr>round1 = (\<lambda>x. 23 / 10), render = (\<lambda>e. [])\<rparr>"
  have a: "session_ok demo_env" "resolve_min_age demo_env None = Inr 30"
    and b: "session_ok (demo_env\<lparr>commit_ok := False\<rparr>)"
      "resolve_min_age (demo_env\<lparr>commit_ok := False\<rparr>) None = Inr 30"
    by (simp_all add: demo_env_def resolve_min_age_def)
  have w1: "write_branch lib demo_env [demo_row] (PStr ''Moscow,ru'') (PFloat (226 / 100)) (PInt 40)
        (PInt 1010) (PStr ''sun'') (PFloat 3) (PInt 75)
       = (saved_result lib (PStr ''Moscow,ru''),
          [demo_row,
           \<lparr>row_id = 7, city = PStr ''Moscow,ru'', temperature = PFloat (23 / 10),
             humidity = PInt 40, pressure = PInt 1010, description = PStr ''sun'',
             wind_speed = PFloat 3, clouds = PInt 75,
             created_at = Some (Aware 600000001)\<rparr>])"
    by (simp add: write_branch_def lib_def demo_env_def new_row_def)
  have w2: "write_branch demo_lib (demo_env\<lparr>commit_ok := False\<rparr>) [demo_row] (PStr ''Moscow,ru'')
        (PFloat 2) (PInt 40) (PInt 1010) (PStr ''sun'') (PFloat 3) (PInt 75)
       = (error_result demo_lib (PStr ''Moscow,ru'') SQLAlchemyError, [demo_row])"
    by (simp add: write_branch_def demo_lib_def demo_env_def)
  from insert_all_or_nothing [OF a, of lib "[demo_row]" "PStr ''Moscow,ru''" "PFloat (226 / 100)"
      "PInt 40" "PInt 1010" "PStr ''sun''" "PFloat 3" "PInt 75"]
  have A: "save_weather_data lib demo_env [demo_row] (PStr ''Moscow,ru'') (PFloat (226 / 100))
        (PInt 40) (PInt 1010) (PStr ''sun'') (PFloat 3) (PInt 75) None False
       = Inr (saved_result lib (PStr ''Moscow,ru''),
              [demo_row,
               \<lparr>row_id = 7, city = PStr ''Moscow,ru'', temperature = PFloat (23 / 10),
                 humidity = PInt 40, pressure = PInt 1010, description = PStr ''sun'',
                 wind_speed = PFloat 3, clouds = PInt 75,
                 created_at = Some (Aware 600000001)\<rparr>])"
    unfolding w1 by auto
  from insert_all_or_nothing [OF b, of demo_lib "[demo_row]" "PStr ''Moscow,ru''" "PFloat 2" "PInt 40"
      "PInt 1010" "PStr ''sun''" "PFloat 3" "PInt 75"]
  have B: "save_weather_data demo_lib (demo_env\<lparr>commit_ok := False\<rparr>) [demo_row] (PStr ''Moscow,ru'')
        (PFloat 2) (PInt 40) (PInt 1010) (PStr ''sun'') (PFloat 3) (PInt 75) None False
       = Inr (error_result demo_lib (PStr ''Moscow,ru'') SQLAlchemyError, [demo_row])"
    unfolding w2 by auto
  from a b A [unfolded lib_def] B show ?thesis by simp
qed

text \<open>
  Claim C7, as amended. When the query for the most recent row raises,
  \<open>get_last_weather_record\<close> returns \<open>None\<close> and the gate accepts, whoever calls:
  there is no opt-in. Only when the session for the read cannot be opened does the
  exception leave \<open>is_data_fresh\<close>; \<open>save_weather_data\<close> then returns the error
  result for the city and writes nothing.
\<close>

theorem read_failure_policy:
  "(gate_session_ok env \<and> \<not> query_ok env \<longrightarrow>
      get_last_weather_record env store c = Inr None
    \<and> is_data_fresh env store c m = Inr (False, None, None)
    \<and> (session_ok env \<and> resolve_min_age env mo = Inr m \<longrightarrow>
         save_weather_data rt env store c temp hum pres descr wind cl mo True
           = Inr (write_branch rt env store c temp hum pres descr wind cl)))
 \<and> (\<not> gate_session_ok env \<longrightarrow>
      is_data_fresh env store c m = Inl SQLAlchemyError
    \<and> (session_ok env \<and> resolve_min_age env mo = Inr m \<longrightarrow>
         save_weather_data rt env store c temp hum pres descr wind cl mo True
           = Inr (error_result rt c SQLAlchemyError, store)))"
  by (simp add: save_weather_data_def is_data_fresh_def get_last_weather_record_def)

text \<open>Both failures on the example store, which holds a fresh row of the city.\<close>

theorem read_failure_policy_witness:
  "gate_session_ok (demo_env\<lparr>query_ok := False\<rparr>) \<and> \<not> query_ok (demo_env\<lparr>query_ok := False\<rparr>)
   \<and> session_ok (demo_env\<lparr>query_ok := False\<rparr>)
   \<and> resolve_min_age (demo_env\<lparr>query_ok := False\<rparr>) None = Inr 30
   \<and> is_data_fresh (demo_env\<lparr>query_ok := False\<rparr>) [demo_row] (PStr ''Moscow,ru'') 30
       = Inr (False, None, None)
   \<and> save_weather_data demo_lib (demo_env\<lparr>query_ok := False\<rparr>) [demo_row] (PStr ''Moscow,ru'')
        (PFloat 2) (PInt 40) (PInt 1010) (PStr ''sun'') PNone PNone None True
       = Inr (saved_result demo_lib (PStr ''Moscow,ru''), [demo_row, demo_new_row])
   \<and> \<not> gate_session_ok (demo_env\<lparr>gate_session_ok := False\<rparr>)
   \<and> session_ok (demo_env\<lparr>gate_session_ok := False\<rparr>)
   \<and> resolve_min_age (demo_env\<lparr>gate_session_ok := False\<rparr>) None = Inr 30
   \<and> is_data_fresh (demo_env\<lparr>gate_session_ok := False\<rparr>) [demo_row] (PStr ''Moscow,ru'') 30
       = Inl SQLAlchemyError
   \<and> save_weather_data demo_lib (demo_env\<lparr>gate_session_ok := False\<rparr>) [demo_row] (PStr ''Moscow,ru'')
        (PFloat 2) (PInt 40) (PInt 1010) (PStr ''sun'') PNone PNone None True
       = Inr (error_result demo_lib (PStr ''Moscow,ru'') SQLAlchemyError, [demo_row])"
proof -
  have a: "gate_session_ok (demo_env\<lparr>query_ok := False\<rparr>)" "\<not> query_ok (demo_env\<lparr>query_ok := False\<rparr>)"
    "session_ok (demo_env\<lparr>query_ok := False\<rparr>)"
    "resolve_min_age (demo_env\<lparr>query_ok := False\<rparr>) None = Inr 30"
    and b: "\<not> gate_session_ok (demo_env\<lparr>gate_session_ok := False\<rparr>)"
    "session_ok (demo_env\<lparr>gate_session_ok := False\<rparr>)"
    "resolve_min_age (demo_env\<lparr>gate_session_ok := False\<rparr>) None = Inr 30"
    by (simp_all add: demo_env_def resolve_min_age_def)
  have w: "write_branch demo_lib (demo_env\<lparr>query_ok := False\<rparr>) [demo_row] (PStr ''Moscow,ru'')
        (PFloat 2) (PInt 40) (PInt 1010) (PStr ''sun'') PNone PNone
       = (saved_result demo_lib (PStr ''Moscow,ru''), [demo_row, demo_new_row])"
    by (simp add: write_branch_def demo_lib_def demo_env_def new_row_def demo_new_row_def)
  from read_failure_policy [of "demo_env\<lparr>query_ok := False\<rparr>" "[demo_row]" "PStr ''Moscow,ru''" 30 None
      demo_lib "PFloat 2" "PInt 40" "PInt 1010" "PStr ''sun''" PNone PNone] a w
  have A: "is_data_fresh (demo_env\<lparr>query_ok := False\<rparr>) [demo_row] (PStr ''Moscow,ru'') 30
       = Inr (False, None, None)
   \<and> save_weather_data demo_lib (demo_env\<lparr>query_ok := False\<rparr>) [demo_row] (PStr ''Moscow,ru'')
        (PFloat 2) (PInt 40) (PInt 1010) (PStr ''sun'') PNone PNone None True
       = Inr (saved_result demo_lib (PStr ''Moscow,ru''), [demo_row, demo_new_row])"
    by simp
  from read_failure_policy [of "demo_env\<lparr>gate_session_ok := False\<rparr>" "[demo_row]" "PStr ''Moscow,ru''" 30 None
      demo_lib "PFloat 2" "PInt 40" "PInt 1010" "PStr ''sun''" PNone PNone] b
  have B: "is_data_fresh (demo_env\<lparr>gate_session_ok := False\<rparr>) [demo_row] (PStr ''Moscow,ru'') 30
       = Inl SQLAlchemyError
   \<and> save_weather_data demo_lib (demo_env\<lparr>gate_session_ok := False\<rparr>) [demo_row] (PStr ''Moscow,ru'')
        (PFloat 2) (PInt 40) (PInt 1010) (PStr ''sun'') PNone PNone None True
       = Inr (error_result demo_lib (PStr ''Moscow,ru'') SQLAlchemyError, [demo_row])"
    by simp
  from a b A B show ?thesis by simp
qed

text \<open>
  Claim C7 as stated fails: with the default arguments and a row only 10 minutes old,
  which a working read makes the gate skip, a failing query makes \<open>is_data_fresh\<close>
  return \<open>(False, None, None)\<close> and \<open>save_weather_data\<close> insert a second row.
\<close>

theorem silent_accept_on_read_failure_counterexample:
  "is_data_fresh demo_env [demo_row] (PStr ''Moscow,ru'') 30 = Inr (True, Some demo_row, Some 10)
   \<and> is_data_fresh (demo_env\<lparr>query_ok := False\<rparr>) [demo_row] (PStr ''Moscow,ru'') 30
       = Inr (False, None, None)
   \<and> save_weather_data demo_lib (demo_env\<lparr>query_ok := False\<rparr>) [demo_row] (PStr ''Moscow,ru'')
        (PFloat 2) (PInt 40) (PInt 1010) (PStr ''sun'') PNone PNone None True
       = Inr (saved_result demo_lib (PStr ''Moscow,ru''), [demo_row, demo_new_row])"
  by (simp add: save_weather_data_def resolve_min_age_def is_data_fresh_def
      get_last_weather_record_def write_branch_def demo_env_def demo_lib_def demo_row_def
      new_row_def demo_new_row_def demo_ages)

section \<open>The Pipeline Coordinator\<close>

text \<open>
  Claim C4, as amended. \<open>save_results_to_db\<close> returns one number, \<open>saved_count\<close>:
  0 when XCom holds nothing or an empty list, and otherwise the number of rows that the
  run appended to the table, which is at most the number of observations. The skipped
  count is only printed, and together with the saved count it is at most the number of
  observations. Nothing stops the loop: when the call for an observation raises, the
  run returns what the run over the remaining observations returns; and whatever
  happens to the observations \<open>xs\<close>, a run over \<open>xs @ ys\<close> goes on to process \<open>ys\<close>
  on the table that \<open>xs\<close> left and returns the sum of the two counts. A run whose
  fetches all failed returns 0 and leaves the table as it was.
\<close>

theorem run_summary_is_saved_count:
  "save_results_to_db rt world store None = (0, store)
   \<and> save_results_to_db rt world store (Some []) = (0, store)
   \<and> (\<exists>saved_count new_rows.
         save_results_to_db rt world store (Some wds) = (saved_count, store @ new_rows)
       \<and> length new_rows = saved_count \<and> saved_count \<le> length wds
       \<and> (wds \<noteq> [] \<longrightarrow> (\<exists>skipped_count.
              printed_skipped rt world store (Some wds) = Some skipped_count
            \<and> saved_count + skipped_count \<le> length wds)))
   \<and> (\<forall>e. save_one rt (world 0) store wd 0 0 = Inl e \<longrightarrow>
         save_results_to_db rt world store (Some (wd # rest))
           = save_results_to_db rt (\<lambda>i. world (Suc i)) store (Some rest))
   \<and> save_results_to_db rt world store (Some (xs @ ys))
       = (case save_results_to_db rt world store (Some xs) of
            (n1, store1) \<Rightarrow>
              (case save_results_to_db rt (\<lambda>i. world (length xs + i)) store1 (Some ys) of
                 (n2, store2) \<Rightarrow> (n1 + n2, store2)))
   \<and> (parse_all_cities_sync rt net cities = [] \<longrightarrow>
         async_weather_parser_dag rt net world store cities = (0, store))"
proof -
  obtain s k st where loop: "save_loop rt world 0 store wds 0 0 = (s, k, st)"
    by (cases "save_loop rt world 0 store wds 0 0") auto
  from save_loop_counts [OF loop] have c: "s + k \<le> length wds" "length st = length store + s"
    by simp_all
  from save_loop_appends [OF loop] obtain new where new: "st = store @ new" "length new = s"
    by auto
  have counts: "\<exists>saved_count new_rows.
         save_results_to_db rt world store (Some wds) = (saved_count, store @ new_rows)
       \<and> length new_rows = saved_count \<and> saved_count \<le> length wds
       \<and> (wds \<noteq> [] \<longrightarrow> (\<exists>skipped_count.
              printed_skipped rt world store (Some wds) = Some skipped_count
            \<and> saved_count + skipped_count \<le> length wds))"
  proof (cases "wds = []")
    case True
    then have "save_results_to_db rt world store (Some wds) = (0, store @ [])"
      by (simp add: save_results_to_db_def)
    with True show ?thesis by auto
  next
    case False
    with loop new have "save_results_to_db rt world store (Some wds) = (s, store @ new)"
      "printed_skipped rt world store (Some wds) = Some k"
      by (simp_all add: save_results_to_db_def printed_skipped_def)
    with c new show ?thesis by auto
  qed
  have raised: "save_results_to_db rt world store (Some (wd # rest))
           = save_results_to_db rt (\<lambda>i. world (Suc i)) store (Some rest)"
    if "save_one rt (world 0) store wd 0 0 = Inl e" for e
  proof -
    have "save_loop rt world (0 + 1) store rest 0 0 = save_loop rt (\<lambda>j. world (1 + j)) 0 store rest 0 0"
      by (rule save_loop_shift_world)
    then have "save_loop rt world (Suc 0) store rest 0 0 = save_loop rt (\<lambda>i. world (Suc i)) 0 store rest 0 0"
      by simp
    with that show ?thesis by (simp add: save_results_as_loop)
  qed
  have composed: "save_results_to_db rt world store (Some (xs @ ys))
       = (case save_results_to_db rt world store (Some xs) of
            (n1, store1) \<Rightarrow>
              (case save_results_to_db rt (\<lambda>i. world (length xs + i)) store1 (Some ys) of
                 (n2, store2) \<Rightarrow> (n1 + n2, store2)))"
  proof -
    obtain a b st1 where l1: "save_loop rt world 0 store xs 0 0 = (a, b, st1)"
      by (cases "save_loop rt world 0 store xs 0 0") auto
    obtain a2 b2 st2 where l2: "save_loop rt (\<lambda>i. world (length xs + i)) 0 st1 ys 0 0 = (a2, b2, st2)"
      by (cases "save_loop rt (\<lambda>i. world (length xs + i)) 0 st1 ys 0 0") auto
    have "save_loop rt world (0 + length xs) st1 ys a b
            = save_loop rt (\<lambda>i. world (length xs + i)) 0 st1 ys a b"
      by (rule save_loop_shift_world)
    also have "\<dots> = (a + a2, b + b2, st2)"
      using l2 by (simp add: save_loop_counters [of rt _ 0 st1 ys a b])
    finally have "save_loop rt world 0 store (xs @ ys) 0 0 = (a + a2, b + b2, st2)"
      using l1 by (simp add: save_loop_append)
    with l1 l2 show ?thesis by (simp add: save_results_as_loop)
  qed
  from counts raised composed show ?thesis
    by (simp add: save_results_to_db_def async_weather_parser_dag_def)
qed

text \<open>
  Two observations while the session of the first call cannot be opened: the call for
  the first raises and the second is still saved. And a run whose only fetch timed out.
\<close>

theorem run_summary_is_saved_count_witness:
  "[demo_observation, demo_observation] \<noteq> []
   \<and> save_one demo_lib (first_call_fails 0) [] demo_observation 0 0 = Inl SQLAlchemyError
   \<and> save_results_to_db demo_lib (\<lambda>i. first_call_fails (Suc i)) [] (Some [demo_observation])
       = (1, [demo_observed_row])
   \<and> save_results_to_db demo_lib first_call_fails [] (Some [demo_observation, demo_observation])
       = (1, [demo_observed_row])
   \<and> printed_skipped demo_lib first_call_fails [] (Some [demo_observation, demo_observation])
       = Some 0
   \<and> parse_all_cities_sync demo_lib (\<lambda>i. timed_out) [''Moscow,ru''] = []
   \<and> async_weather_parser_dag demo_lib (\<lambda>i. timed_out) first_call_fails [] [''Moscow,ru'']
       = (0, [])"
proof -
  have a: "parse_all_cities_sync demo_lib (\<lambda>i. timed_out) [''Moscow,ru''] = []"
    by (simp add: parse_all_cities_sync_def fetch_all_cities_async_def gather_tasks_def
        fetch_city_weather_def timed_out_def)
  have s0: "save_one demo_lib (demo_env\<lparr>session_ok := False\<rparr>) [] demo_observation 0 0
     = Inl SQLAlchemyError"
    by (simp add: save_one_def save_weather_data_def resolve_min_age_def demo_env_def
        demo_observation_def dict_getitem_def dict_get_def)
  then have s1: "save_one demo_lib (first_call_fails 0) [] demo_observation 0 0 = Inl SQLAlchemyError"
    by (simp add: first_call_fails_def)
  have r: "save_results_to_db demo_lib (\<lambda>i. first_call_fails (Suc i)) [] (Some [demo_observation])
       = (1, [demo_observed_row])"
    by (simp add: save_results_to_db_def first_call_fails_def demo_save_one
        demo_observation_truthy)
  have p: "printed_skipped demo_lib first_call_fails [] (Some [demo_observation, demo_observation])
       = Some 0"
    by (simp add: printed_skipped_def first_call_fails_def s0 demo_save_one
        demo_observation_truthy)
  note t = run_summary_is_saved_count [where rt = demo_lib and world = first_call_fails
      and store = "[]" and wds = "[demo_observation, demo_observation]"
      and wd = demo_observation and rest = "[demo_observation]"
      and xs = "[demo_observation]" and ys = "[demo_observation]"
      and net = "\<lambda>i. timed_out" and cities = "[''Moscow,ru'']"]
  from t s1 r have b: "save_results_to_db demo_lib first_call_fails []
      (Some [demo_observation, demo_observation]) = (1, [demo_observed_row])"
    by simp
  from t a have d: "async_weather_parser_dag demo_lib (\<lambda>i. timed_out) first_call_fails []
      [''Moscow,ru''] = (0, [])"
    by simp
  from a s1 r b p d show ?thesis by simp
qed

text \<open>
  Claim C4 as stated fails: a run that skipped its observation, a run whose gate could
  not open its session and a run whose fetch timed out all return the same value, 0.
  The return value holds neither the skipped count, nor the count of failed fetches,
  nor an outcome per city.
\<close>

theorem run_summary_counterexample:
  "save_results_to_db demo_lib (\<lambda>i. demo_env) [demo_row] (Some [demo_observation]) = (0, [demo_row])
   \<and> printed_skipped demo_lib (\<lambda>i. demo_env) [demo_row] (Some [demo_observation]) = Some 1
   \<and> save_results_to_db demo_lib (\<lambda>i. demo_env\<lparr>gate_session_ok := False\<rparr>) [demo_row]
        (Some [demo_observation]) = (0, [demo_row])
   \<and> printed_skipped demo_lib (\<lambda>i. demo_env\<lparr>gate_session_ok := False\<rparr>) [demo_row]
        (Some [demo_observation]) = Some 0
   \<and> async_weather_parser_dag demo_lib (\<lambda>i. timed_out) (\<lambda>i. demo_env) [demo_row] [''Moscow,ru'']
       = (0, [demo_row])"
  by (simp add: save_results_to_db_def printed_skipped_def async_weather_parser_dag_def
      parse_all_cities_sync_def fetch_all_cities_async_def gather_tasks_def
      fetch_city_weather_def timed_out_def demo_save_one demo_observation_truthy)

text \<open>
  Claim C5, as amended. Let a first run fetch and save all \<open>K\<close> cities, on a table
  in which no row lacks \<open>created_at\<close>. Let a second run fetch all \<open>K\<close> cities again,
  with the store reachable, while less than 30 minutes have passed since the server
  stamped the rows of the first run. Then the second run saves nothing, skips all \<open>K\<close>
  observations and leaves the table as it was: it returns 0 and counts \<open>K\<close> skipped.
\<close>

theorem second_run_skips_all:
  assumes run1: "async_weather_parser_dag rt net1 world1 store0 cities = (length cities, store1)"
    and nonnull: "\<forall>r\<in>set store0. created_at r \<noteq> None"
    and fetch2: "length (parse_all_cities_sync rt net2 cities) = length cities"
    and healthy: "\<forall>j<length cities. session_ok (world2 j) \<and> gate_session_ok (world2 j)
                    \<and> query_ok (world2 j)"
    and elapsed: "\<forall>i<length cities. \<forall>j<length cities.
                    utc_now (world2 j) - server_now (world1 i) < 30 * 60 * 1000000"
  shows "async_weather_parser_dag rt net2 world2 store1 cities = (0, store1)
       \<and> save_loop rt world2 0 store1 (parse_all_cities_sync rt net2 cities) 0 0
           = (0, length cities, store1)"
proof -
  define wds1 where "wds1 = parse_all_cities_sync rt net1 cities"
  define wds2 where "wds2 = parse_all_cities_sync rt net2 cities"
  define K where "K = length cities"
  have len2: "length wds2 = K" using fetch2 by (simp add: wds2_def K_def)
  obtain s1 k1 st1 where loop1: "save_loop rt world1 0 store0 wds1 0 0 = (s1, k1, st1)"
    by (cases "save_loop rt world1 0 store0 wds1 0 0") auto
  from save_loop_counts [OF loop1] have s1_le: "s1 \<le> length wds1" by simp
  have len1_le: "length wds1 \<le> K" by (simp add: wds1_def K_def parse_all_length)
  have r1: "s1 = K \<and> st1 = store1"
  proof (cases "wds1 = []")
    case True
    with run1 loop1 show ?thesis
      by (simp add: async_weather_parser_dag_def save_results_to_db_def wds1_def K_def)
  next
    case False
    with run1 loop1 show ?thesis
      by (simp add: async_weather_parser_dag_def save_results_to_db_def wds1_def K_def)
  qed
  with s1_le len1_le have len1: "length wds1 = K" by simp
  from loop1 r1 len1 have "save_loop rt world1 0 store0 wds1 0 0 = (0 + length wds1, k1, store1)"
    by simp
  from save_loop_all_saved [OF this] obtain new where
    new: "store1 = store0 @ new"
      "\<forall>row\<in>set new. \<exists>j<length wds1. created_at row = Some (Aware (server_now (world1 (0 + j))))"
      "\<forall>wd\<in>set wds1. \<exists>row\<in>set new. dict_getitem wd ''city'' = Inr (city row)"
    by blast
  have nonnull1: "\<forall>r\<in>set store1. created_at r \<noteq> None"
    using nonnull new(1,2) by auto
  have cities1: "map (\<lambda>d. dict_getitem d ''city'') wds1 = map (\<lambda>c. Inr (PStr c)) cities"
    using len1 unfolding wds1_def K_def by (rule parse_all_complete)
  have has_row: "\<exists>row\<in>set new. city row = PStr c" if "c \<in> set cities" for c
  proof -
    from that have "Inr (PStr c) \<in> set (map (\<lambda>d. dict_getitem d ''city'') wds1)"
      unfolding cities1 by simp
    then obtain wd where "wd \<in> set wds1" "dict_getitem wd ''city'' = Inr (PStr c)" by auto
    with new(3) show ?thesis by force
  qed
  have step: "wds2 ! j \<noteq> [] \<and> save_one rt (world2 (0 + j)) store1 (wds2 ! j) s k = Inr (s, k + 1, store1)"
    if j: "j < length wds2" for j s k
  proof -
    from j have "wds2 ! j \<in> set (parse_all_cities_sync rt net2 cities)"
      by (simp add: wds2_def)
    from parse_all_member [OF this] obtain c temp hum pres descr where
      ne: "wds2 ! j \<noteq> []" and c: "c \<in> set cities" and
      keys: "dict_getitem (wds2 ! j) ''city'' = Inr (PStr c)"
        "dict_getitem (wds2 ! j) ''temperature'' = Inr temp"
        "dict_getitem (wds2 ! j) ''humidity'' = Inr hum"
        "dict_getitem (wds2 ! j) ''pressure'' = Inr pres"
        "dict_getitem (wds2 ! j) ''description'' = Inr descr"
      by blast
    from has_row [OF c] obtain x where x: "x \<in> set new" "city x = PStr c" by blast
    with new(2) len1 obtain i where i: "i < K" "created_at x = Some (Aware (server_now (world1 i)))"
      by auto
    from x new(1) have xin: "x \<in> set (filter (\<lambda>r. city r = PStr c) store1)" by simp
    from nonnull1 have "\<forall>r\<in>set (filter (\<lambda>r. city r = PStr c) store1). created_at r \<noteq> None" by simp
    from first_desc_latest [OF xin this] i(2) obtain r t where
      r: "first_desc (filter (\<lambda>r. city r = PStr c) store1) = Some r" "created_at r = Some t"
        "server_now (world1 i) \<le> instant t"
      by (auto simp: instant_def)
    from j len2 have jK: "j < K" by simp
    with healthy have h: "session_ok (world2 j)" "gate_session_ok (world2 j)" "query_ok (world2 j)"
      by (simp_all add: K_def)
    from elapsed i(1) jK have "utc_now (world2 j) - server_now (world1 i) < 30 * 60 * 1000000"
      by (simp add: K_def)
    from age_below_threshold [OF this r(3)] have age: "age_minutes_of (utc_now (world2 j)) t < 30" .
    from save_one_fresh [OF keys h r(1,2) age] ne show ?thesis by simp
  qed
  from save_loop_all_skipped [of wds2 rt world2 0 store1 0 0, OF step]
  have loop2: "save_loop rt world2 0 store1 wds2 0 0 = (0, K, store1)" using len2 by simp
  then have "save_results_to_db rt world2 store1 (Some wds2) = (0, store1)"
    by (simp add: save_results_to_db_def)
  with loop2 show ?thesis
    by (simp add: async_weather_parser_dag_def wds2_def K_def)
qed

text \<open>
  One city whose last row is an hour old: fetched and saved, and fetched again five
  minutes later.
\<close>

theorem second_run_skips_all_witness:
  "async_weather_parser_dag demo_lib (\<lambda>i. answered payload_missing) (\<lambda>i. demo_env) [old_row]
       [''Moscow,ru''] = (length [''Moscow,ru''], [old_row, demo_observed_row])
   \<and> created_at old_row \<noteq> None
   \<and> length (parse_all_cities_sync demo_lib (\<lambda>i. answered payload_missing) [''Moscow,ru''])
       = length [''Moscow,ru'']
   \<and> session_ok later_env \<and> gate_session_ok later_env \<and> query_ok later_env
   \<and> utc_now later_env - server_now demo_env < 30 * 60 * 1000000
   \<and> async_weather_parser_dag demo_lib (\<lambda>i. answered payload_missing) (\<lambda>i. later_env)
       [old_row, demo_observed_row] [''Moscow,ru''] = (0, [old_row, demo_observed_row])
   \<and> save_loop demo_lib (\<lambda>i. later_env) 0 [old_row, demo_observed_row]
       (parse_all_cities_sync demo_lib (\<lambda>i. answered payload_missing) [''Moscow,ru'']) 0 0
       = (0, 1, [old_row, demo_observed_row])"
proof -
  have run1: "async_weather_parser_dag demo_lib (\<lambda>i. answered payload_missing) (\<lambda>i. demo_env)
       [old_row] [''Moscow,ru''] = (length [''Moscow,ru''], [old_row, demo_observed_row])"
    by (simp add: async_weather_parser_dag_def save_results_to_db_def demo_fetch demo_save_one
        demo_observation_truthy)
  have old: "created_at old_row \<noteq> None" by (simp add: old_row_def)
  then have nonnull: "\<forall>r\<in>set [old_row]. created_at r \<noteq> None" by simp
  have fetch2: "length (parse_all_cities_sync demo_lib (\<lambda>i. answered payload_missing) [''Moscow,ru''])
       = length [''Moscow,ru'']"
    by (simp add: demo_fetch)
  have h: "session_ok later_env" "gate_session_ok later_env" "query_ok later_env"
    and e: "utc_now later_env - server_now demo_env < 30 * 60 * 1000000"
    by (simp_all add: later_env_def demo_env_def)
  from h have healthy: "\<forall>j<length [''Moscow,ru'']. session_ok ((\<lambda>i. later_env) j)
      \<and> gate_session_ok ((\<lambda>i. later_env) j) \<and> query_ok ((\<lambda>i. later_env) j)"
    by simp
  from e have elapsed: "\<forall>i<length [''Moscow,ru'']. \<forall>j<length [''Moscow,ru''].
      utc_now ((\<lambda>i. later_env) j) - server_now ((\<lambda>i. demo_env) i) < 30 * 60 * 1000000"
    by simp
  from second_run_skips_all [OF run1 nonnull fetch2 healthy elapsed] run1 old fetch2 h e
  show ?thesis by simp
qed

text \<open>
  Claim C5 as stated fails: with \<open>K = 1\<close> the first run returns 1 and the second run,
  five minutes later, returns 0 saved, not \<open>K\<close>, and prints 1 skipped.
\<close>

theorem second_run_saves_nothing_counterexample:
  "async_weather_parser_dag demo_lib (\<lambda>i. answered payload_missing) (\<lambda>i. demo_env) [old_row]
       [''Moscow,ru''] = (1, [old_row, demo_observed_row])
   \<and> async_weather_parser_dag demo_lib (\<lambda>i. answered payload_missing) (\<lambda>i. later_env)
       [old_row, demo_observed_row] [''Moscow,ru''] = (0, [old_row, demo_observed_row])
   \<and> printed_skipped demo_lib (\<lambda>i. later_env) [old_row, demo_observed_row]
       (Some (parse_all_cities_sync demo_lib (\<lambda>i. answered payload_missing) [''Moscow,ru'']))
       = Some 1"
  by (simp add: async_weather_parser_dag_def save_results_to_db_def printed_skipped_def
      demo_fetch demo_save_one demo_observation_truthy)

end
